theory Spec2Isabelle
  imports Main "HOL-Library.Word"
begin

section \<open>Go values used by the package\<close>

text \<open>
  Go's \<open>int\<close> (of 64 bits, as on the usual platforms) and \<open>int64\<close> are modelled as
  \<open>int\<close>. The arithmetic of the package on integers given by a caller is the addition
  of two of them, stored in an \<open>int64\<close> field; there the wrap-around is written out, by
  \<open>add64\<close>. Its other arithmetic is on lengths of slices, which stay far below the
  range's end. A \<open>float64\<close> is its 64-bit pattern. A string is its sequence of bytes.
\<close>

type_synonym float64 = "64 word"

definition wrap64 :: "int \<Rightarrow> int" where
  "wrap64 x = sint (word_of_int x :: 64 word)"

definition add64 :: "int \<Rightarrow> int \<Rightarrow> int" where
  "add64 a b = wrap64 (a + b)"

text \<open>The verb \<open>%d\<close> of \<open>fmt\<close>: the decimal rendering of an integer.\<close>

fun itoa_nat :: "nat \<Rightarrow> string" where
  "itoa_nat n =
     (if n < 10 then [''0123456789'' ! n]
      else itoa_nat (n div 10) @ [''0123456789'' ! (n mod 10)])"

declare itoa_nat.simps [simp del]

definition itoa :: "int \<Rightarrow> string" where
  "itoa i = (if i < 0 then CHR ''-'' # itoa_nat (nat (- i)) else itoa_nat (nat i))"

text \<open>\<open>strings.Join(elems, sep)\<close>.\<close>

fun strings_Join :: "string list \<Rightarrow> string \<Rightarrow> string" where
  "strings_Join [] sep = []"
| "strings_Join [x] sep = x"
| "strings_Join (x # y # ys) sep = x @ sep @ strings_Join (y # ys) sep"

section \<open>Errors\<close>

text \<open>\<open>RequestUnitInfo\<close> of \<^verbatim>\<open>batch_update_executor.go\<close>.\<close>

record RequestUnitInfo =
  Label :: string
  StartIndex :: int
  EndIndex :: int
  Count :: int

text \<open>
  The error values the package creates or passes on:
  \<^item> \<open>errorString\<close>: \<open>errors.New(msg)\<close> and \<open>fmt.Errorf\<close> without \<open>%w\<close> (the formatted
    message), and any error of the transport;
  \<^item> \<open>wrapError\<close>: \<open>fmt.Errorf(prefix + "%w", err)\<close>;
  \<^item> \<open>joinError\<close>: the result of \<open>errors.Join\<close> on at least one non-nil error;
  \<^item> \<open>BatchUpdateError\<close>: the struct of that name, with its fields \<open>Err\<close> and \<open>Units\<close>.
\<close>

datatype go_error =
    errorString string
  | wrapError string go_error
  | joinError "go_error list"
  | BatchUpdateError go_error "RequestUnitInfo list"

text \<open>The method \<open>Error()\<close>; \<open>joinError\<close> joins its members' messages with a newline.\<close>

fun Error :: "go_error \<Rightarrow> string" where
  "Error (errorString s) = s"
| "Error (wrapError p e) = p @ Error e"
| "Error (joinError es) = strings_Join (map Error es) [CHR 0x0A]"
| "Error (BatchUpdateError e us) = ''haresheet: request execution failed: '' @ Error e"

text \<open>The method \<open>Unwrap() error\<close>, \<open>None\<close> where the error has none or returns nil.\<close>

fun Unwrap :: "go_error \<Rightarrow> go_error option" where
  "Unwrap (BatchUpdateError e us) = Some e"
| "Unwrap (wrapError p e) = Some e"
| "Unwrap (errorString s) = None"
| "Unwrap (joinError es) = None"

text \<open>
  \<open>errors.Join(errs...)\<close>: nil errors are discarded, and the result is nil when none is
  left. A nil error is \<open>None\<close>.
\<close>

definition errors_Join :: "go_error option list \<Rightarrow> go_error option" where
  "errors_Join es =
     (case List.map_filter id es of [] \<Rightarrow> None | x # xs \<Rightarrow> Some (joinError (x # xs)))"

section \<open>The requests of the Sheets API that the builder creates\<close>

text \<open>
  Each struct of \<open>google.golang.org/api/sheets/v4\<close> is a constructor whose arguments
  are the fields the package sets, in the order given in the comment; a field that the
  package leaves out has Go's zero value. A request is a value, what its pointers lead
  to when it is staged or returned.
\<close>

record SpreadsheetProperties =
  sp_Title :: string
  sp_Locale :: string
  sp_TimeZone :: string

datatype Color = Color float64 float64 float64 float64 \<comment> \<open>Red, Green, Blue, Alpha\<close>

datatype SheetProperties =
  SheetProperties int string int "string list" bool "Color option"
  \<comment> \<open>SheetId, Title, Index, ForceSendFields, Hidden, TabColor\<close>

datatype ExtendedValue =
    FormulaValue string
  | StringValue string
  | NumberValue float64
  | BoolValue bool

datatype Link = Link string \<comment> \<open>Uri\<close>

datatype TextFormat = TextFormat "Color option" "Link option" \<comment> \<open>ForegroundColor, Link\<close>

datatype CellFormat =
  CellFormat "TextFormat option" "Color option" \<comment> \<open>TextFormat, BackgroundColor\<close>

datatype CellData =
  CellData "ExtendedValue option" "CellFormat option"
  \<comment> \<open>UserEnteredValue, UserEnteredFormat\<close>

datatype GridCoordinate = GridCoordinate int int int \<comment> \<open>SheetId, RowIndex, ColumnIndex\<close>

datatype DimensionRange =
  DimensionRange int string int int \<comment> \<open>SheetId, Dimension, StartIndex, EndIndex\<close>

datatype DimensionProperties = DimensionProperties bool int \<comment> \<open>HiddenByUser, PixelSize\<close>

datatype GridRange =
  GridRange int int int int int
  \<comment> \<open>SheetId, StartRowIndex, EndRowIndex, StartColumnIndex, EndColumnIndex\<close>

datatype Editors = Editors "string list" \<comment> \<open>Users\<close>

datatype ProtectedRange =
  ProtectedRange GridRange string bool "Editors option"
  \<comment> \<open>Range, Description, WarningOnly, Editors\<close>

datatype request =
    UpdateSpreadsheetPropertiesRequest SpreadsheetProperties string \<comment> \<open>Properties, Fields\<close>
  | AddSheetRequest SheetProperties
  | DuplicateSheetRequest int int string int
    \<comment> \<open>SourceSheetId, NewSheetId, NewSheetName, InsertSheetIndex\<close>
  | DeleteSheetRequest int
  | AppendDimensionRequest int string int \<comment> \<open>SheetId, Dimension, Length\<close>
  | InsertDimensionRequest DimensionRange
  | UpdateCellsRequest GridCoordinate "CellData list list" string \<comment> \<open>Start, Rows, Fields\<close>
  | UpdateSheetPropertiesRequest SheetProperties string \<comment> \<open>Properties, Fields\<close>
  | UpdateDimensionPropertiesRequest DimensionRange DimensionProperties string
  | RepeatCellRequest GridRange CellData string \<comment> \<open>Range, Cell, Fields\<close>
  | CopyPasteRequest GridRange GridRange string string
    \<comment> \<open>Source, Destination, PasteType, PasteOrientation\<close>
  | MergeCellsRequest GridRange string \<comment> \<open>Range, MergeType\<close>
  | AddProtectedRangeRequest ProtectedRange
  | InsertRangeRequest GridRange string \<comment> \<open>Range, ShiftDimension\<close>
  | DeleteRangeRequest GridRange string \<comment> \<open>Range, ShiftDimension\<close>

section \<open>The batch executor\<close>

text \<open>
  The world outside the executor: the batches sent to the remote service so far, each
  with the spreadsheet it went to, and the state of whoever listens to the trace.
  A remote service is a function from the batches it has received and the call at hand
  to the call's outcome (\<open>None\<close>: success), so that every behaviour of a service over a
  run is some such function. A callback of the trace observes: it maps what it is given
  and the listener's state to the listener's new state. The duration passed to
  \<open>OnFlushDone\<close> is wall-clock time and is left out.
\<close>

record FlushStatus =
  RequestCount :: int
  Units :: "RequestUnitInfo list"
  SpreadsheetID :: string

datatype trace_event =
    FlushStarted FlushStatus
  | FlushDone FlushStatus "go_error option"

record world =
  sent :: "(string \<times> request list) list"
  observed :: "trace_event list"

type_synonym sheets_Service =
  "(string \<times> request list) list \<Rightarrow> string \<Rightarrow> request list \<Rightarrow> go_error option"

record ClientTrace =
  OnFlushStart :: "(FlushStatus \<Rightarrow> trace_event list \<Rightarrow> trace_event list) option"
  OnFlushDone ::
    "(FlushStatus \<Rightarrow> go_error option \<Rightarrow> trace_event list \<Rightarrow> trace_event list) option"

record BatchUpdateExecutor =
  service :: sheets_Service
  spreadID :: string
  requests :: "request list"
  units :: "RequestUnitInfo list"
  limit :: int
  err :: "go_error option"
  Trace :: "ClientTrace option"

definition NewBatchUpdateExecutor ::
  "sheets_Service \<Rightarrow> string \<Rightarrow> int \<Rightarrow> BatchUpdateExecutor" where
  "NewBatchUpdateExecutor svc spreadsheetID lim =
     \<lparr>service = svc, spreadID = spreadsheetID, requests = [], units = [],
      limit = (if lim \<le> 0 then 100 else lim), err = None, Trace = None\<rparr>"

text \<open>The two guarded calls of the trace inside \<open>Flush\<close>.\<close>

definition call_OnFlushStart :: "BatchUpdateExecutor \<Rightarrow> FlushStatus \<Rightarrow> world \<Rightarrow> world" where
  "call_OnFlushStart e status w =
     (case Trace e of
        None \<Rightarrow> w
      | Some t \<Rightarrow>
          (case OnFlushStart t of
             None \<Rightarrow> w
           | Some f \<Rightarrow> w\<lparr>observed := f status (observed w)\<rparr>))"

definition call_OnFlushDone ::
  "BatchUpdateExecutor \<Rightarrow> FlushStatus \<Rightarrow> go_error option \<Rightarrow> world \<Rightarrow> world" where
  "call_OnFlushDone e status er w =
     (case Trace e of
        None \<Rightarrow> w
      | Some t \<Rightarrow>
          (case OnFlushDone t of
             None \<Rightarrow> w
           | Some f \<Rightarrow> w\<lparr>observed := f status er (observed w)\<rparr>))"

text \<open>
  \<open>Flush\<close> returns its error (\<open>None\<close> for nil), the executor after the call and the
  world after the call. A nil slice is the empty list. The slice \<open>labels\<close> that the
  source fills from the units is never read, and is left out.
\<close>

definition Flush ::
  "BatchUpdateExecutor \<Rightarrow> world \<Rightarrow> go_error option \<times> BatchUpdateExecutor \<times> world" where
  "Flush e w =
     (if length (requests e) = 0 then (None, e, w)
      else
        let status = \<lparr>RequestCount = int (length (requests e)), Units = units e,
                      SpreadsheetID = spreadID e\<rparr>;
            w1 = call_OnFlushStart e status w;
            er = service e (sent w1) (spreadID e) (requests e);
            w2 = w1\<lparr>sent := sent w1 @ [(spreadID e, requests e)]\<rparr>;
            w3 = call_OnFlushDone e status er w2
        in (case er of
              Some x \<Rightarrow> (Some (BatchUpdateError x (units e)), e, w3)
            | None \<Rightarrow> (None, e\<lparr>requests := [], units := []\<rparr>, w3)))"

text \<open>
  The second half of \<open>Queue\<close>, from \<open>startIndex := currentCount\<close> on: the new unit is
  recorded and the requests are appended.
\<close>

definition Queue_admit ::
  "BatchUpdateExecutor \<Rightarrow> int \<Rightarrow> request list \<Rightarrow> string \<Rightarrow> BatchUpdateExecutor" where
  "Queue_admit e currentCount reqs label =
     (let newCount = int (length reqs);
          startIndex = currentCount;
          endIndex = currentCount + newCount - 1;
          label' =
            (if label = [] then
               ''Unit-'' @ itoa (int (length (units e)) + 1) @ '' ['' @ itoa startIndex @
               '' - '' @ itoa endIndex @ '']''
             else label)
      in e\<lparr>units := units e @
               [\<lparr>Label = label', StartIndex = startIndex, EndIndex = endIndex,
                 Count = newCount\<rparr>],
            requests := requests e @ reqs\<rparr>)"

definition Queue ::
  "BatchUpdateExecutor \<Rightarrow> world \<Rightarrow> request list \<Rightarrow> string \<Rightarrow> BatchUpdateExecutor \<times> world" where
  "Queue e w reqs label =
     (if err e \<noteq> None then (e, w)
      else
        let currentCount = int (length (requests e));
            newCount = int (length reqs)
        in if currentCount > 0 \<and> currentCount + newCount > limit e then
             (case Flush e w of
                (Some x, e1, w1) \<Rightarrow> (e1\<lparr>err := Some x\<rparr>, w1)
              | (None, e1, w1) \<Rightarrow> (Queue_admit e1 0 reqs label, w1))
           else (Queue_admit e currentCount reqs label, w))"

section \<open>The request builder\<close>

text \<open>
  \<open>Builder\<close> of \<^verbatim>\<open>builder.go\<close>. The executor is created for one builder and reached
  through it only, so the pointer is modelled by the executor's state held in the
  builder; \<open>props\<close> is a pointer, nil until a property is set.
\<close>

record Builder =
  executor :: "BatchUpdateExecutor option"
  b_requests :: "request list"
  errs :: "go_error list"
  props :: "SpreadsheetProperties option"
  propFields :: "string list"

definition NewBuilder :: Builder where
  "NewBuilder = \<lparr>executor = None, b_requests = [], errs = [], props = None, propFields = []\<rparr>"

text \<open>
  \<open>Requests\<close> returns its two results and the builder after the call (the receiver is
  a pointer). The nil slice is the empty list, the nil error \<open>None\<close>. The property update
  that it creates points to the properties of the builder; here it holds what they are
  when \<open>Requests\<close> returns.
\<close>

definition Requests :: "Builder \<Rightarrow> (request list \<times> go_error option) \<times> Builder" where
  "Requests b =
     (if length (errs b) > 0 then (([], errors_Join (map Some (errs b))), b)
      else
        let finalRequests = b_requests b;
            finalRequests' =
              (case props b of
                 None \<Rightarrow> finalRequests
               | Some p \<Rightarrow>
                   if length (propFields b) > 0 then
                     [UpdateSpreadsheetPropertiesRequest p (strings_Join (propFields b) '','')]
                       @ finalRequests
                   else finalRequests)
        in ((finalRequests', None), b))"

definition AppendRequest :: "Builder \<Rightarrow> request option \<Rightarrow> Builder" where
  "AppendRequest b r =
     (case r of None \<Rightarrow> b | Some x \<Rightarrow> b\<lparr>b_requests := b_requests b @ [x]\<rparr>)"

definition PrependRequest :: "Builder \<Rightarrow> request option \<Rightarrow> Builder" where
  "PrependRequest b r =
     (case r of None \<Rightarrow> b | Some x \<Rightarrow> b\<lparr>b_requests := [x] @ b_requests b\<rparr>)"

definition appendError :: "Builder \<Rightarrow> go_error option \<Rightarrow> Builder" where
  "appendError b e = (case e of None \<Rightarrow> b | Some x \<Rightarrow> b\<lparr>errs := errs b @ [x]\<rparr>)"

definition ensureProps :: "Builder \<Rightarrow> Builder" where
  "ensureProps b =
     (case props b of
        None \<Rightarrow> b\<lparr>props := Some \<lparr>sp_Title = [], sp_Locale = [], sp_TimeZone = []\<rparr>\<rparr>
      | Some p \<Rightarrow> b)"

text \<open>
  The three property setters. After \<open>ensureProps\<close> the pointer is not nil, so the
  assignment through it always has a target.
\<close>

definition Title :: "Builder \<Rightarrow> string \<Rightarrow> Builder" where
  "Title b title =
     (let b1 = ensureProps b;
          b2 = b1\<lparr>props := map_option (\<lambda>p. p\<lparr>sp_Title := title\<rparr>) (props b1)\<rparr>
      in b2\<lparr>propFields := propFields b2 @ [''title'']\<rparr>)"

definition Locale :: "Builder \<Rightarrow> string \<Rightarrow> Builder" where
  "Locale b locale =
     (let b1 = ensureProps b;
          b2 = b1\<lparr>props := map_option (\<lambda>p. p\<lparr>sp_Locale := locale\<rparr>) (props b1)\<rparr>
      in b2\<lparr>propFields := propFields b2 @ [''locale'']\<rparr>)"

definition TimeZone :: "Builder \<Rightarrow> string \<Rightarrow> Builder" where
  "TimeZone b tz =
     (let b1 = ensureProps b;
          b2 = b1\<lparr>props := map_option (\<lambda>p. p\<lparr>sp_TimeZone := tz\<rparr>) (props b1)\<rparr>
      in b2\<lparr>propFields := propFields b2 @ [''timeZone'']\<rparr>)"

text \<open>\<open>SheetBuilder\<close>: its pointer to the builder is the builder's state.\<close>

record SheetBuilder =
  sb_b :: Builder
  sb_sheetID :: int

definition Sheet :: "Builder \<Rightarrow> int \<Rightarrow> SheetBuilder" where
  "Sheet b sheetID =
     (if sheetID < 0 then
        \<lparr>sb_b = appendError b (Some (errorString (''Sheet: invalid sheet ID: '' @ itoa sheetID))),
         sb_sheetID = sheetID\<rparr>
      else \<lparr>sb_b = b, sb_sheetID = sheetID\<rparr>)"

definition AddSheet :: "Builder \<Rightarrow> int \<Rightarrow> string \<Rightarrow> int \<Rightarrow> Builder" where
  "AddSheet b sheetID title idx =
     (let sprops =
            (if idx \<ge> 0 then SheetProperties sheetID title idx [''Index''] False None
             else SheetProperties sheetID title 0 [] False None);
          req = AddSheetRequest sprops
      in b\<lparr>b_requests := b_requests b @ [req]\<rparr>)"

text \<open>The loop of \<open>CopySheet\<close> over the new names, \<open>currentIndex\<close> being its variable.\<close>

fun CopySheet_loop :: "Builder \<Rightarrow> int \<Rightarrow> int \<Rightarrow> int \<Rightarrow> string list \<Rightarrow> Builder" where
  "CopySheet_loop b srcSheetID toIndex currentIndex [] = b"
| "CopySheet_loop b srcSheetID toIndex currentIndex (name # names) =
     (let dsRequest =
            DuplicateSheetRequest srcSheetID 0 name (if toIndex \<ge> 0 then currentIndex else 0);
          currentIndex' = (if toIndex \<ge> 0 then add64 currentIndex 1 else currentIndex)
      in CopySheet_loop (AppendRequest b (Some dsRequest)) srcSheetID toIndex
           currentIndex' names)"

definition CopySheet :: "Builder \<Rightarrow> int \<Rightarrow> int \<Rightarrow> string list \<Rightarrow> Builder" where
  "CopySheet b srcSheetID toIndex newNames =
     (if srcSheetID < 0 then
        appendError b
          (Some (errorString (''CopySheet: invalid src sheet ID: '' @ itoa srcSheetID)))
      else if toIndex < -1 then
        appendError b (Some (errorString (''CopySheet: invalid to index: '' @ itoa toIndex)))
      else if length newNames = 0 then
        appendError b (Some (errorString ''CopySheet: no sheet names specified''))
      else CopySheet_loop b srcSheetID toIndex toIndex newNames)"

definition CopySheetWithID :: "Builder \<Rightarrow> int \<Rightarrow> int \<Rightarrow> int \<Rightarrow> string \<Rightarrow> Builder" where
  "CopySheetWithID b srcSheetID toIndex newSheetID newName =
     (if srcSheetID < 0 then
        appendError b
          (Some (errorString (''CopySheetWithID: invalid src sheet id: '' @ itoa srcSheetID)))
      else if toIndex < -1 then
        appendError b
          (Some (errorString (''CopySheetWithID: invalid to index: '' @ itoa toIndex)))
      else if newSheetID < 0 then
        appendError b
          (Some (errorString (''CopySheetWithID: invalid new sheet id: '' @ itoa toIndex)))
      else if newName = [] then
        appendError b (Some (errorString ''CopySheetWithID: invalid new sheet name''))
      else
        AppendRequest b
          (Some (DuplicateSheetRequest srcSheetID newSheetID newName
                   (if toIndex \<ge> 0 then toIndex else 0))))"

fun DeleteSheet_loop :: "Builder \<Rightarrow> int list \<Rightarrow> Builder" where
  "DeleteSheet_loop b [] = b"
| "DeleteSheet_loop b (i # ids) =
     DeleteSheet_loop (AppendRequest b (Some (DeleteSheetRequest i))) ids"

definition DeleteSheet :: "Builder \<Rightarrow> int list \<Rightarrow> Builder" where
  "DeleteSheet b sheetIDs = (if length sheetIDs = 0 then b else DeleteSheet_loop b sheetIDs)"

definition WithTrace :: "Builder \<Rightarrow> ClientTrace option \<Rightarrow> Builder" where
  "WithTrace b tr =
     (case executor b of
        None \<Rightarrow> b
      | Some e \<Rightarrow> b\<lparr>executor := Some (e\<lparr>Trace := tr\<rparr>)\<rparr>)"

definition WithLimit :: "Builder \<Rightarrow> int \<Rightarrow> Builder" where
  "WithLimit b lim =
     (case executor b of
        None \<Rightarrow> b
      | Some e \<Rightarrow> b\<lparr>executor := Some (e\<lparr>limit := lim\<rparr>)\<rparr>)"

definition Reset :: "Builder \<Rightarrow> Builder" where
  "Reset b = b\<lparr>b_requests := [], errs := [], props := None, propFields := []\<rparr>"

text \<open>\<open>Client\<close> and its method \<open>Builder()\<close> of \<^verbatim>\<open>client.go\<close>.\<close>

record Client =
  c_service :: sheets_Service
  c_spreadID :: string

definition Client_Builder :: "Client \<Rightarrow> Builder" where
  "Client_Builder c =
     NewBuilder\<lparr>executor := Some (NewBatchUpdateExecutor (c_service c) (c_spreadID c) 100)\<rparr>"

section \<open>The sheet, row and column builders\<close>

text \<open>
  A value of Go's type \<open>any\<close> as the cell setters see it: nil, a value of one of the
  four dynamic types they know, or a value of another dynamic type (named).
\<close>

datatype go_any =
    AnyNil
  | AnyString string
  | AnyInt int
  | AnyFloat64 float64
  | AnyBool bool
  | AnyOther string

text \<open>
  \<open>toCellData\<close>; its receiver is not used. The conversion \<open>float64(val)\<close> of an \<open>int\<close>
  is Go's own and is a parameter, \<open>conv\<close>, of this function and of its callers.
\<close>

definition toCellData :: "(int \<Rightarrow> float64) \<Rightarrow> go_any \<Rightarrow> CellData" where
  "toCellData conv v =
     (case v of
        AnyString val \<Rightarrow>
          (if length val > 0 \<and> val ! 0 = CHR ''='' then CellData (Some (FormulaValue val)) None
           else CellData (Some (StringValue val)) None)
      | AnyInt val \<Rightarrow> CellData (Some (NumberValue (conv val))) None
      | AnyFloat64 val \<Rightarrow> CellData (Some (NumberValue val)) None
      | AnyBool val \<Rightarrow> CellData (Some (BoolValue val)) None
      | AnyNil \<Rightarrow> CellData None None
      | AnyOther t \<Rightarrow> CellData None None)"

text \<open>\<open>sb.b.appendError(err)\<close>, \<open>sb.b.AppendRequest(req)\<close> and \<open>sb.b.PrependRequest(req)\<close>.\<close>

definition sb_appendError :: "SheetBuilder \<Rightarrow> go_error \<Rightarrow> SheetBuilder" where
  "sb_appendError sb e = sb\<lparr>sb_b := appendError (sb_b sb) (Some e)\<rparr>"

definition sb_AppendRequest :: "SheetBuilder \<Rightarrow> request \<Rightarrow> SheetBuilder" where
  "sb_AppendRequest sb r = sb\<lparr>sb_b := AppendRequest (sb_b sb) (Some r)\<rparr>"

definition sb_PrependRequest :: "SheetBuilder \<Rightarrow> request \<Rightarrow> SheetBuilder" where
  "sb_PrependRequest sb r = sb\<lparr>sb_b := PrependRequest (sb_b sb) (Some r)\<rparr>"

definition ExpandRows :: "SheetBuilder \<Rightarrow> int \<Rightarrow> SheetBuilder" where
  "ExpandRows sb cnt =
     (if cnt < 0 then
        sb_appendError sb (errorString (''ExpandRows: invalid count: '' @ itoa cnt))
      else sb_PrependRequest sb (AppendDimensionRequest (sb_sheetID sb) ''ROWS'' cnt))"

definition ExpandColumns :: "SheetBuilder \<Rightarrow> int \<Rightarrow> SheetBuilder" where
  "ExpandColumns sb cnt =
     (if cnt < 0 then
        sb_appendError sb (errorString (''ExpandRows: invalid count: '' @ itoa cnt))
      else sb_PrependRequest sb (AppendDimensionRequest (sb_sheetID sb) ''COLUMNS'' cnt))"

definition InsertColumns :: "SheetBuilder \<Rightarrow> int \<Rightarrow> int \<Rightarrow> SheetBuilder" where
  "InsertColumns sb startIndex cnt =
     (if startIndex < 0 then
        sb_appendError sb
          (errorString (''InsertColumns: invalid startIndex: '' @ itoa startIndex))
      else if cnt \<le> 0 then
        sb_appendError sb (errorString (''InsertColumns: invalid count: '' @ itoa cnt))
      else
        sb_PrependRequest sb
          (InsertDimensionRequest
             (DimensionRange (sb_sheetID sb) ''COLUMNS'' startIndex (add64 startIndex cnt))))"

definition SetCellValue ::
  "(int \<Rightarrow> float64) \<Rightarrow> SheetBuilder \<Rightarrow> int \<Rightarrow> int \<Rightarrow> go_any \<Rightarrow> SheetBuilder" where
  "SetCellValue conv sb row col v =
     (if row < 0 then
        sb_appendError sb (errorString (''SetCellValue: invalid row: '' @ itoa row))
      else if col < 0 then
        sb_appendError sb (errorString (''SetCellValue: invalid col: '' @ itoa col))
      else if v = AnyNil then
        sb_appendError sb (errorString ''SetCellValue: value should not be nil'')
      else
        let cell = toCellData conv v
        in sb_AppendRequest sb
             (UpdateCellsRequest (GridCoordinate (sb_sheetID sb) row col) [[cell]]
                ''userEnteredValue''))"

definition SetRowValues ::
  "(int \<Rightarrow> float64) \<Rightarrow> SheetBuilder \<Rightarrow> int \<Rightarrow> int \<Rightarrow> go_any list \<Rightarrow> SheetBuilder" where
  "SetRowValues conv sb row col vals =
     (if row < 0 then
        sb_appendError sb (errorString (''SetRowValues: invalid row: '' @ itoa row))
      else if col < 0 then
        sb_appendError sb (errorString (''SetRowValues: invalid col: '' @ itoa col))
      else if length vals = 0 then
        sb_appendError sb (errorString ''SetRowValues: values should not be nil or empty'')
      else
        let cells = map (toCellData conv) vals
        in sb_AppendRequest sb
             (UpdateCellsRequest (GridCoordinate (sb_sheetID sb) row col) [cells]
                ''userEnteredValue''))"

definition SetRangeValues ::
  "(int \<Rightarrow> float64) \<Rightarrow> SheetBuilder \<Rightarrow> int \<Rightarrow> int \<Rightarrow> go_any list list \<Rightarrow> SheetBuilder"
  where
  "SetRangeValues conv sb row col vals =
     (if row < 0 then
        sb_appendError sb (errorString (''SetRangeValues: invalid row: '' @ itoa row))
      else if col < 0 then
        sb_appendError sb (errorString (''SetRangeValues: invalid col: '' @ itoa col))
      else if length vals = 0 then
        sb_appendError sb (errorString ''SetRangeValues: values should not be nil or empty'')
      else
        let rows = map (\<lambda>rowVals. map (toCellData conv) rowVals) vals
        in sb_AppendRequest sb
             (UpdateCellsRequest (GridCoordinate (sb_sheetID sb) row col) rows
                ''userEnteredValue''))"

definition SetHidden :: "SheetBuilder \<Rightarrow> bool \<Rightarrow> SheetBuilder" where
  "SetHidden sb hidden =
     sb_AppendRequest sb
       (UpdateSheetPropertiesRequest (SheetProperties (sb_sheetID sb) [] 0 [] hidden None)
          ''hidden'')"

definition SheetBuilder_Hide :: "SheetBuilder \<Rightarrow> SheetBuilder" where
  "SheetBuilder_Hide sb = SetHidden sb True"

definition SheetBuilder_Show :: "SheetBuilder \<Rightarrow> SheetBuilder" where
  "SheetBuilder_Show sb = SetHidden sb False"

definition updateDimension ::
  "SheetBuilder \<Rightarrow> string \<Rightarrow> int \<Rightarrow> int \<Rightarrow> DimensionProperties \<Rightarrow> string \<Rightarrow> SheetBuilder"
  where
  "updateDimension sb dimension start cnt dprops flds =
     sb_AppendRequest sb
       (UpdateDimensionPropertiesRequest
          (DimensionRange (sb_sheetID sb) dimension start (add64 start cnt)) dprops flds)"

definition SetColumnsHidden :: "SheetBuilder \<Rightarrow> int \<Rightarrow> int \<Rightarrow> bool \<Rightarrow> SheetBuilder" where
  "SetColumnsHidden sb startCol cnt hidden =
     (if startCol \<le> 0 then
        sb_appendError sb
          (errorString (''SetColumnsHidden: invalid start column: '' @ itoa startCol))
      else if cnt \<le> 0 then
        sb_appendError sb (errorString (''SetColumnsHidden: invalid count: '' @ itoa cnt))
      else
        updateDimension sb ''COLUMNS'' startCol cnt (DimensionProperties hidden 0)
          ''hiddenByUser'')"

definition SetRowsHidden :: "SheetBuilder \<Rightarrow> int \<Rightarrow> int \<Rightarrow> bool \<Rightarrow> SheetBuilder" where
  "SetRowsHidden sb startRow cnt hidden =
     (if startRow \<le> 0 then
        sb_appendError sb
          (errorString (''SetColumnsHidden: invalid start row: '' @ itoa startRow))
      else if cnt \<le> 0 then
        sb_appendError sb (errorString (''SetColumnsHidden: invalid count: '' @ itoa cnt))
      else
        updateDimension sb ''ROWS'' startRow cnt (DimensionProperties hidden 0)
          ''hiddenByUser'')"

definition toEnd :: int where
  "toEnd = -1"

definition clearValues :: "SheetBuilder \<Rightarrow> int \<Rightarrow> int \<Rightarrow> int \<Rightarrow> int \<Rightarrow> SheetBuilder" where
  "clearValues sb row col height width =
     (let rng =
            GridRange (sb_sheetID sb) row (if height > 0 then add64 row height else 0) col
              (if width > 0 then add64 col width else 0)
      in sb_AppendRequest sb (RepeatCellRequest rng (CellData None None) ''userEnteredValue''))"

definition ClearColValues :: "SheetBuilder \<Rightarrow> int \<Rightarrow> int \<Rightarrow> int \<Rightarrow> SheetBuilder" where
  "ClearColValues sb col width skipRows =
     (if col < 0 then
        sb_appendError sb (errorString (''ClearColValues: invalid col: '' @ itoa col))
      else if width < 1 then
        sb_appendError sb (errorString (''ClearColValues: invalid width: '' @ itoa width))
      else if skipRows < 0 then
        sb_appendError sb
          (errorString (''ClearColValues: invalid skipRows: '' @ itoa skipRows))
      else clearValues sb skipRows col toEnd width)"

definition ClearRowValues :: "SheetBuilder \<Rightarrow> int \<Rightarrow> int \<Rightarrow> int \<Rightarrow> SheetBuilder" where
  "ClearRowValues sb row height skipCols =
     (if row < 0 then
        sb_appendError sb (errorString (''ClearRowValues: invalid row: '' @ itoa row))
      else if height < 1 then
        sb_appendError sb (errorString (''ClearRowValues: invalid height: '' @ itoa height))
      else if skipCols < 0 then
        sb_appendError sb
          (errorString (''ClearRowValues: invalid skipCols: '' @ itoa skipCols))
      else clearValues sb row skipCols height toEnd)"

text \<open>
  The string types \<open>PasteType\<close>, \<open>MergeType\<close> and \<open>ShiftDimensionType\<close> with the constants
  the builder uses, and \<open>Rect\<close>; a \<open>*Rect\<close> is a \<open>Rect option\<close>, nil being \<open>None\<close>.
\<close>

definition PasteTypeNormal :: string where
  "PasteTypeNormal = ''PASTE_NORMAL''"

definition MergeTypeAll :: string where
  "MergeTypeAll = ''MERGE_ALL''"

definition MergeTypeRows :: string where
  "MergeTypeRows = ''MERGE_ROWS''"

definition MergeTypeCols :: string where
  "MergeTypeCols = ''MERGE_COLS''"

definition ShiftDimensionTypeRows :: string where
  "ShiftDimensionTypeRows = ''ROWS''"

record Rect =
  rect_Row :: int
  rect_Col :: int
  rect_Height :: int
  rect_Width :: int

text \<open>
  \<open>isRectInvalid\<close> returns its result and the sheet builder after the call, on whose
  builder it may have recorded an error.
\<close>

definition isRectInvalid ::
  "SheetBuilder \<Rightarrow> Rect option \<Rightarrow> string \<Rightarrow> string \<Rightarrow> bool \<times> SheetBuilder" where
  "isRectInvalid sb rect label name =
     (case rect of
        None \<Rightarrow>
          (True, sb_appendError sb (errorString (label @ '': '' @ name @ '' should not be nil'')))
      | Some r \<Rightarrow>
          if rect_Row r < 0 then
            (True,
             sb_appendError sb
               (errorString (label @ '': invalid '' @ name @ ''.Row: '' @ itoa (rect_Row r))))
          else if rect_Col r < 0 then
            (True,
             sb_appendError sb
               (errorString (label @ '': invalid '' @ name @ ''.Col: '' @ itoa (rect_Col r))))
          else if rect_Height r < 0 \<and> rect_Height r \<noteq> toEnd then
            (True,
             sb_appendError sb
               (errorString
                  (label @ '': invalid '' @ name @ ''.Height: '' @ itoa (rect_Height r))))
          else if rect_Width r < 0 \<and> rect_Width r \<noteq> toEnd then
            (True,
             sb_appendError sb
               (errorString
                  (label @ '': invalid '' @ name @ ''.Width: '' @ itoa (rect_Width r))))
          else (False, sb))"

text \<open>
  The grid range that the methods build from a sheet identifier and a rectangle:
  rows from \<open>Row\<close> to \<open>Row + Height\<close>, columns from \<open>Col\<close> to \<open>Col + Width\<close>.
\<close>

definition rect_range :: "int \<Rightarrow> Rect \<Rightarrow> GridRange" where
  "rect_range sheetID r =
     GridRange sheetID (rect_Row r) (add64 (rect_Row r) (rect_Height r)) (rect_Col r)
       (add64 (rect_Col r) (rect_Width r))"

text \<open>
  In the methods below the rectangle is read only after \<open>isRectInvalid\<close> (or the method's
  own test) has found it not nil; the branch for \<open>None\<close> at that point is never taken.
\<close>

definition CopyRange ::
  "SheetBuilder \<Rightarrow> int \<Rightarrow> Rect option \<Rightarrow> int \<Rightarrow> int \<Rightarrow> string \<Rightarrow> SheetBuilder" where
  "CopyRange sb srcSheetID src dstR dstC pasteType =
     (if srcSheetID < 0 then
        sb_appendError sb
          (errorString (''CopyRange: invalid src sheet id: '' @ itoa srcSheetID))
      else
        (case isRectInvalid sb src ''CopyRange'' ''src'' of
           (True, sb1) \<Rightarrow> sb1
         | (False, sb1) \<Rightarrow>
             if dstR < 0 then
               sb_appendError sb1 (errorString (''CopyRange: invalid dst row: '' @ itoa dstR))
             else if dstC < 0 then
               sb_appendError sb1
                 (errorString (''CopyRange: invalid dst column: '' @ itoa dstR))
             else
               let pasteType' = (if pasteType = [] then PasteTypeNormal else pasteType)
               in (case src of
                     None \<Rightarrow> sb1
                   | Some r \<Rightarrow>
                       let srcRange = rect_range srcSheetID r;
                           dstRange =
                             GridRange (sb_sheetID sb1) dstR (add64 dstR (rect_Height r)) dstC
                               (add64 dstC (rect_Width r))
                       in sb_AppendRequest sb1
                            (CopyPasteRequest srcRange dstRange pasteType' ''NORMAL''))))"

definition FillDownFrom ::
  "SheetBuilder \<Rightarrow> int \<Rightarrow> Rect option \<Rightarrow> int \<Rightarrow> int \<Rightarrow> int \<Rightarrow> string \<Rightarrow> SheetBuilder"
  where
  "FillDownFrom sb srcSheetID src dstR dstC height pasteType =
     (if srcSheetID < 0 then
        sb_appendError sb
          (errorString (''FillDownFrom: invalid src sheet id: '' @ itoa srcSheetID))
      else
        (case isRectInvalid sb src ''FillDownFrom'' ''src'' of
           (True, sb1) \<Rightarrow> sb1
         | (False, sb1) \<Rightarrow>
             if dstR < 0 then
               sb_appendError sb1
                 (errorString (''FillDownFrom: invalid dst row: '' @ itoa dstR))
             else if dstC < 0 then
               sb_appendError sb1
                 (errorString (''FillDownFrom: invalid dst column: '' @ itoa dstR))
             else if height \<le> 0 then
               sb_appendError sb1
                 (errorString (''FillDownFrom: invalid height: '' @ itoa height))
             else
               (case src of
                  None \<Rightarrow> sb1
                | Some r \<Rightarrow>
                    let srcRange = rect_range srcSheetID r;
                        dstRange =
                          GridRange (sb_sheetID sb1) dstR (add64 dstR height) dstC
                            (add64 dstC (rect_Width r));
                        pasteType' = (if pasteType = [] then PasteTypeNormal else pasteType)
                    in sb_AppendRequest sb1
                         (CopyPasteRequest srcRange dstRange pasteType' ''NORMAL''))))"

definition Merge :: "SheetBuilder \<Rightarrow> Rect option \<Rightarrow> string \<Rightarrow> SheetBuilder" where
  "Merge sb rect mergeType =
     (case rect of
        None \<Rightarrow> sb_appendError sb (errorString ''Merge: rect should not be nil'')
      | Some r \<Rightarrow>
          let mergeType' = (if mergeType = [] then MergeTypeAll else mergeType)
          in sb_AppendRequest sb (MergeCellsRequest (rect_range (sb_sheetID sb) r) mergeType'))"

definition MergeRows :: "SheetBuilder \<Rightarrow> Rect option \<Rightarrow> SheetBuilder" where
  "MergeRows sb rect = Merge sb rect MergeTypeRows"

definition MergeCols :: "SheetBuilder \<Rightarrow> Rect option \<Rightarrow> SheetBuilder" where
  "MergeCols sb rect = Merge sb rect MergeTypeCols"

text \<open>
  \<open>addProtectedRangeRequest\<close>. A nil slice of users and an empty one are both the empty
  list, so the replacement of the former by the latter does not show.
\<close>

definition addProtectedRangeRequest ::
  "SheetBuilder \<Rightarrow> string \<Rightarrow> string list \<Rightarrow> bool \<Rightarrow> GridRange \<Rightarrow> SheetBuilder" where
  "addProtectedRangeRequest sb desc users warningOnly rng =
     (let editors = (if \<not> warningOnly then Some (Editors users) else None)
      in sb_AppendRequest sb
           (AddProtectedRangeRequest (ProtectedRange rng desc warningOnly editors)))"

definition ProtectRange ::
  "SheetBuilder \<Rightarrow> Rect option \<Rightarrow> string \<Rightarrow> string list \<Rightarrow> bool \<Rightarrow> SheetBuilder" where
  "ProtectRange sb rect description users warningOnly =
     (case isRectInvalid sb rect ''ProtectRange'' ''rect'' of
        (True, sb1) \<Rightarrow> sb1
      | (False, sb1) \<Rightarrow>
          (case rect of
             None \<Rightarrow> sb1
           | Some r \<Rightarrow>
               addProtectedRangeRequest sb1 description users warningOnly
                 (rect_range (sb_sheetID sb1) r)))"

definition ProtectSheet :: "SheetBuilder \<Rightarrow> string \<Rightarrow> string list \<Rightarrow> bool \<Rightarrow> SheetBuilder" where
  "ProtectSheet sb description users warningOnly =
     addProtectedRangeRequest sb description users warningOnly
       (GridRange (sb_sheetID sb) 0 0 0 0)"

definition SetForegroundColor :: "SheetBuilder \<Rightarrow> Rect option \<Rightarrow> Color option \<Rightarrow> SheetBuilder" where
  "SetForegroundColor sb rect color =
     (case isRectInvalid sb rect ''SetForegroundColor'' ''rect'' of
        (True, sb1) \<Rightarrow> sb1
      | (False, sb1) \<Rightarrow>
          (case color of
             None \<Rightarrow>
               sb_appendError sb1 (errorString ''SetForegroundColor: color should not be nil'')
           | Some c \<Rightarrow>
               (case rect of
                  None \<Rightarrow> sb1
                | Some r \<Rightarrow>
                    sb_AppendRequest sb1
                      (RepeatCellRequest (rect_range (sb_sheetID sb1) r)
                         (CellData None (Some (CellFormat (Some (TextFormat (Some c) None)) None)))
                         ''userEnteredFormat.textFormat.foregroundColor''))))"

definition SetBackgroundColor :: "SheetBuilder \<Rightarrow> Rect option \<Rightarrow> Color option \<Rightarrow> SheetBuilder" where
  "SetBackgroundColor sb rect color =
     (case isRectInvalid sb rect ''SetBackgroundColor'' ''rect'' of
        (True, sb1) \<Rightarrow> sb1
      | (False, sb1) \<Rightarrow>
          (case color of
             None \<Rightarrow>
               sb_appendError sb1 (errorString ''SetBackgroundColor: color should not be nil'')
           | Some c \<Rightarrow>
               (case rect of
                  None \<Rightarrow> sb1
                | Some r \<Rightarrow>
                    sb_AppendRequest sb1
                      (RepeatCellRequest (rect_range (sb_sheetID sb1) r)
                         (CellData None (Some (CellFormat None (Some c))))
                         ''userEnteredFormat.backgroundColor''))))"

definition SetTabColor :: "SheetBuilder \<Rightarrow> Color option \<Rightarrow> SheetBuilder" where
  "SetTabColor sb color =
     (case color of
        None \<Rightarrow> sb_appendError sb (errorString ''SetTabColor: color should not be nil'')
      | Some c \<Rightarrow>
          sb_AppendRequest sb
            (UpdateSheetPropertiesRequest
               (SheetProperties (sb_sheetID sb) [] 0 [] False (Some c)) ''tabColor''))"

definition InsertRange :: "SheetBuilder \<Rightarrow> Rect option \<Rightarrow> string \<Rightarrow> SheetBuilder" where
  "InsertRange sb rect shiftDimension =
     (case isRectInvalid sb rect ''InsertRange'' ''rect'' of
        (True, sb1) \<Rightarrow> sb1
      | (False, sb1) \<Rightarrow>
          let shiftDimension' =
                (if shiftDimension = [] then ShiftDimensionTypeRows else shiftDimension)
          in (case rect of
                None \<Rightarrow> sb1
              | Some r \<Rightarrow>
                  sb_AppendRequest sb1
                    (InsertRangeRequest (rect_range (sb_sheetID sb1) r) shiftDimension')))"

definition InsertAndCopyRange ::
  "SheetBuilder \<Rightarrow> int \<Rightarrow> Rect option \<Rightarrow> int \<Rightarrow> int \<Rightarrow> string \<Rightarrow> SheetBuilder" where
  "InsertAndCopyRange sb srcSheetID src dstR dstC pasteType =
     (if srcSheetID < 0 then
        sb_appendError sb
          (errorString (''InsertAndCopyRange: invalid src sheet id: '' @ itoa srcSheetID))
      else
        (case isRectInvalid sb src ''InsertAndCopyRange'' ''src'' of
           (True, sb1) \<Rightarrow> sb1
         | (False, sb1) \<Rightarrow>
             if dstR < 0 then
               sb_appendError sb1
                 (errorString (''InsertAndCopyRange: invalid dst row: '' @ itoa dstR))
             else if dstC < 0 then
               sb_appendError sb1
                 (errorString (''InsertAndCopyRange: invalid dst column: '' @ itoa dstR))
             else
               let pasteType' = (if pasteType = [] then PasteTypeNormal else pasteType)
               in (case src of
                     None \<Rightarrow> sb1
                   | Some r \<Rightarrow>
                       let dstRect =
                             \<lparr>rect_Row = dstR, rect_Col = dstC, rect_Height = rect_Height r,
                              rect_Width = rect_Width r\<rparr>;
                           sb2 = InsertRange sb1 (Some dstRect) ShiftDimensionTypeRows;
                           actualSrc =
                             (if sb_sheetID sb2 = srcSheetID \<and> dstR \<le> rect_Row r then
                                r\<lparr>rect_Row := add64 (rect_Row r) (rect_Height r)\<rparr>
                              else r)
                       in CopyRange sb2 srcSheetID (Some actualSrc) dstR dstC pasteType')))"

definition DeleteRange :: "SheetBuilder \<Rightarrow> Rect option \<Rightarrow> string \<Rightarrow> SheetBuilder" where
  "DeleteRange sb rect shiftDimension =
     (case isRectInvalid sb rect ''DeleteRange'' ''rect'' of
        (True, sb1) \<Rightarrow> sb1
      | (False, sb1) \<Rightarrow>
          let shiftDimension' =
                (if shiftDimension = [] then ShiftDimensionTypeRows else shiftDimension)
          in (case rect of
                None \<Rightarrow> sb1
              | Some r \<Rightarrow>
                  sb_AppendRequest sb1
                    (DeleteRangeRequest (rect_range (sb_sheetID sb1) r) shiftDimension')))"

definition SetLink :: "SheetBuilder \<Rightarrow> Rect option \<Rightarrow> string \<Rightarrow> SheetBuilder" where
  "SetLink sb rect url =
     (case isRectInvalid sb rect ''SetLink'' ''rect'' of
        (True, sb1) \<Rightarrow> sb1
      | (False, sb1) \<Rightarrow>
          if url = [] then sb_appendError sb1 (errorString ''SetLink: url should not be empty'')
          else
            (case rect of
               None \<Rightarrow> sb1
             | Some r \<Rightarrow>
                 sb_AppendRequest sb1
                   (RepeatCellRequest (rect_range (sb_sheetID sb1) r)
                      (CellData None
                         (Some (CellFormat (Some (TextFormat None (Some (Link url)))) None)))
                      ''userEnteredFormat.textFormat.link'')))"

definition SetLinkToSheet :: "SheetBuilder \<Rightarrow> Rect option \<Rightarrow> int \<Rightarrow> SheetBuilder" where
  "SetLinkToSheet sb rect targetSheetID =
     (case isRectInvalid sb rect ''SetLinkToSheet'' ''rect'' of
        (True, sb1) \<Rightarrow> sb1
      | (False, sb1) \<Rightarrow>
          if targetSheetID \<le> 0 then
            sb_appendError sb1
              (errorString (''Row: invalid target sheet id: '' @ itoa targetSheetID))
          else
            let internalLink = ''#gid='' @ itoa targetSheetID
            in SetLink sb1 rect internalLink)"

definition ClearRangeValues :: "SheetBuilder \<Rightarrow> Rect option \<Rightarrow> SheetBuilder" where
  "ClearRangeValues sb rect =
     (case isRectInvalid sb rect ''ClearRangeValues'' ''rect'' of
        (True, sb1) \<Rightarrow> sb1
      | (False, sb1) \<Rightarrow>
          (case rect of
             None \<Rightarrow> sb1
           | Some r \<Rightarrow>
               clearValues sb1 (rect_Row r) (rect_Col r) (rect_Height r) (rect_Width r)))"

text \<open>\<open>RowBuilder\<close> and \<open>ColumnBuilder\<close>, created by \<open>SheetBuilder.Row\<close> and \<open>Column\<close>.\<close>

record RowBuilder =
  rb_sb :: SheetBuilder
  rb_start :: int
  rb_count :: int

record ColumnBuilder =
  cb_sb :: SheetBuilder
  cb_start :: int
  cb_count :: int

definition Row :: "SheetBuilder \<Rightarrow> int \<Rightarrow> int \<Rightarrow> RowBuilder" where
  "Row sb startRow cnt =
     (if startRow < 0 then
        \<lparr>rb_sb = sb_appendError sb (errorString (''Row: invalid start row: '' @ itoa startRow)),
         rb_start = startRow, rb_count = cnt\<rparr>
      else if cnt < 1 then
        \<lparr>rb_sb = sb_appendError sb (errorString (''Row: invalid count: '' @ itoa cnt)),
         rb_start = startRow, rb_count = cnt\<rparr>
      else \<lparr>rb_sb = sb, rb_start = startRow, rb_count = cnt\<rparr>)"

definition Column :: "SheetBuilder \<Rightarrow> int \<Rightarrow> int \<Rightarrow> ColumnBuilder" where
  "Column sb startCol cnt =
     (if startCol < 0 then
        \<lparr>cb_sb = sb_appendError sb (errorString (''Row: invalid start col: '' @ itoa startCol)),
         cb_start = startCol, cb_count = cnt\<rparr>
      else if cnt < 1 then
        \<lparr>cb_sb = sb_appendError sb (errorString (''Row: invalid count: '' @ itoa cnt)),
         cb_start = startCol, cb_count = cnt\<rparr>
      else \<lparr>cb_sb = sb, cb_start = startCol, cb_count = cnt\<rparr>)"

definition RowBuilder_Hide :: "RowBuilder \<Rightarrow> RowBuilder" where
  "RowBuilder_Hide rb = rb\<lparr>rb_sb := SetRowsHidden (rb_sb rb) (rb_start rb) (rb_count rb) True\<rparr>"

definition RowBuilder_Show :: "RowBuilder \<Rightarrow> RowBuilder" where
  "RowBuilder_Show rb = rb\<lparr>rb_sb := SetRowsHidden (rb_sb rb) (rb_start rb) (rb_count rb) False\<rparr>"

definition SetHeight :: "RowBuilder \<Rightarrow> int \<Rightarrow> RowBuilder" where
  "SetHeight rb pixels =
     (if pixels < 0 then
        rb\<lparr>rb_sb := sb_appendError (rb_sb rb) (errorString ''SetHeight: pixels must be positive'')\<rparr>
      else
        rb\<lparr>rb_sb := updateDimension (rb_sb rb) ''ROWS'' (rb_start rb) (rb_count rb)
                       (DimensionProperties False pixels) ''pixelSize''\<rparr>)"

definition ColumnBuilder_Hide :: "ColumnBuilder \<Rightarrow> ColumnBuilder" where
  "ColumnBuilder_Hide cb =
     cb\<lparr>cb_sb := SetColumnsHidden (cb_sb cb) (cb_start cb) (cb_count cb) True\<rparr>"

definition ColumnBuilder_Show :: "ColumnBuilder \<Rightarrow> ColumnBuilder" where
  "ColumnBuilder_Show cb =
     cb\<lparr>cb_sb := SetColumnsHidden (cb_sb cb) (cb_start cb) (cb_count cb) False\<rparr>"

definition SetWidth :: "ColumnBuilder \<Rightarrow> int \<Rightarrow> ColumnBuilder" where
  "SetWidth cb pixels =
     (if pixels < 0 then
        cb\<lparr>cb_sb := sb_appendError (cb_sb cb) (errorString ''SetHeight: pixels must be positive'')\<rparr>
      else
        cb\<lparr>cb_sb := updateDimension (cb_sb cb) ''COLUMNS'' (cb_start cb) (cb_count cb)
                       (DimensionProperties False pixels) ''pixelSize''\<rparr>)"

section \<open>Client programs\<close>

text \<open>
  The outcome of the remote call that \<open>Flush\<close> makes when the executor is \<open>e\<close> and the
  world is \<open>w\<close>.
\<close>

definition remote_outcome :: "BatchUpdateExecutor \<Rightarrow> world \<Rightarrow> go_error option" where
  "remote_outcome e w = service e (sent w) (spreadID e) (requests e)"

text \<open>The guard of \<open>Queue\<close> under which it flushes before it admits.\<close>

definition must_flush :: "BatchUpdateExecutor \<Rightarrow> request list \<Rightarrow> bool" where
  "must_flush e reqs \<longleftrightarrow>
     requests e \<noteq> [] \<and> int (length (requests e)) + int (length reqs) > limit e"

text \<open>A caller's use of an executor: a sequence of \<open>Queue\<close> and \<open>Flush\<close> calls.\<close>

datatype executor_call =
    CallQueue "request list" string
  | CallFlush

fun apply_executor_call ::
  "BatchUpdateExecutor \<times> world \<Rightarrow> executor_call \<Rightarrow> BatchUpdateExecutor \<times> world" where
  "apply_executor_call (e, w) (CallQueue reqs label) = Queue e w reqs label"
| "apply_executor_call (e, w) CallFlush = snd (Flush e w)"

definition run_executor ::
  "BatchUpdateExecutor \<times> world \<Rightarrow> executor_call list \<Rightarrow> BatchUpdateExecutor \<times> world" where
  "run_executor s cs = foldl apply_executor_call s cs"

text \<open>
  A caller's use of a builder through its fluent methods and through \<open>AppendRequest\<close>
  and \<open>PrependRequest\<close>, by which a caller stages a request of its own. Every view (\<open>SheetBuilder\<close>,
  \<open>RowBuilder\<close>, \<open>ColumnBuilder\<close>) points to the one builder it came from, so a method
  called on a view obtained earlier acts on the builder as it is now: \<open>OnSheet i c\<close> is the
  call \<open>c\<close> on a view with sheet identifier \<open>i\<close>, \<open>OnRow s n c\<close> the call \<open>c\<close> on a row view
  with start \<open>s\<close> and count \<open>n\<close>. Creating a view is a call of its own (\<open>DoSheet\<close>, \<open>DoRow\<close>,
  \<open>DoColumn\<close>), since creation validates.
\<close>

datatype row_call =
    DoRowHide
  | DoRowShow
  | DoSetHeight int

datatype column_call =
    DoColumnHide
  | DoColumnShow
  | DoSetWidth int

datatype sheet_call =
    DoRow int int
  | DoColumn int int
  | DoExpandRows int
  | DoExpandColumns int
  | DoInsertColumns int int
  | DoSetCellValue int int go_any
  | DoSetRowValues int int "go_any list"
  | DoSetRangeValues int int "go_any list list"
  | DoSetHidden bool
  | DoHide
  | DoShow
  | DoSetColumnsHidden int int bool
  | DoSetRowsHidden int int bool
  | DoClearColValues int int int
  | DoClearRowValues int int int
  | DoCopyRange int "Rect option" int int string
  | DoFillDownFrom int "Rect option" int int int string
  | DoMerge "Rect option" string
  | DoMergeRows "Rect option"
  | DoMergeCols "Rect option"
  | DoProtectRange "Rect option" string "string list" bool
  | DoProtectSheet string "string list" bool
  | DoSetForegroundColor "Rect option" "Color option"
  | DoSetBackgroundColor "Rect option" "Color option"
  | DoSetTabColor "Color option"
  | DoInsertRange "Rect option" string
  | DoInsertAndCopyRange int "Rect option" int int string
  | DoDeleteRange "Rect option" string
  | DoSetLink "Rect option" string
  | DoSetLinkToSheet "Rect option" int
  | DoClearRangeValues "Rect option"
  | OnRow int int row_call
  | OnColumn int int column_call

datatype call =
    DoTitle string
  | DoLocale string
  | DoTimeZone string
  | DoSheet int
  | DoAddSheet int string int
  | DoCopySheet int int "string list"
  | DoCopySheetWithID int int int string
  | DoDeleteSheet "int list"
  | DoWithTrace "ClientTrace option"
  | DoWithLimit int
  | OnSheet int sheet_call
  | DoAppendRequest "request option"
  | DoPrependRequest "request option"

fun apply_row_call :: "RowBuilder \<Rightarrow> row_call \<Rightarrow> RowBuilder" where
  "apply_row_call rb DoRowHide = RowBuilder_Hide rb"
| "apply_row_call rb DoRowShow = RowBuilder_Show rb"
| "apply_row_call rb (DoSetHeight pixels) = SetHeight rb pixels"

fun apply_column_call :: "ColumnBuilder \<Rightarrow> column_call \<Rightarrow> ColumnBuilder" where
  "apply_column_call cb DoColumnHide = ColumnBuilder_Hide cb"
| "apply_column_call cb DoColumnShow = ColumnBuilder_Show cb"
| "apply_column_call cb (DoSetWidth pixels) = SetWidth cb pixels"

fun apply_sheet_call :: "(int \<Rightarrow> float64) \<Rightarrow> SheetBuilder \<Rightarrow> sheet_call \<Rightarrow> SheetBuilder" where
  "apply_sheet_call conv sb (DoRow s n) = rb_sb (Row sb s n)"
| "apply_sheet_call conv sb (DoColumn s n) = cb_sb (Column sb s n)"
| "apply_sheet_call conv sb (DoExpandRows n) = ExpandRows sb n"
| "apply_sheet_call conv sb (DoExpandColumns n) = ExpandColumns sb n"
| "apply_sheet_call conv sb (DoInsertColumns s n) = InsertColumns sb s n"
| "apply_sheet_call conv sb (DoSetCellValue r c v) = SetCellValue conv sb r c v"
| "apply_sheet_call conv sb (DoSetRowValues r c vs) = SetRowValues conv sb r c vs"
| "apply_sheet_call conv sb (DoSetRangeValues r c vss) = SetRangeValues conv sb r c vss"
| "apply_sheet_call conv sb (DoSetHidden h) = SetHidden sb h"
| "apply_sheet_call conv sb DoHide = SheetBuilder_Hide sb"
| "apply_sheet_call conv sb DoShow = SheetBuilder_Show sb"
| "apply_sheet_call conv sb (DoSetColumnsHidden s n h) = SetColumnsHidden sb s n h"
| "apply_sheet_call conv sb (DoSetRowsHidden s n h) = SetRowsHidden sb s n h"
| "apply_sheet_call conv sb (DoClearColValues c wd sk) = ClearColValues sb c wd sk"
| "apply_sheet_call conv sb (DoClearRowValues r ht sk) = ClearRowValues sb r ht sk"
| "apply_sheet_call conv sb (DoCopyRange i src r c pt) = CopyRange sb i src r c pt"
| "apply_sheet_call conv sb (DoFillDownFrom i src r c ht pt) = FillDownFrom sb i src r c ht pt"
| "apply_sheet_call conv sb (DoMerge rect mt) = Merge sb rect mt"
| "apply_sheet_call conv sb (DoMergeRows rect) = MergeRows sb rect"
| "apply_sheet_call conv sb (DoMergeCols rect) = MergeCols sb rect"
| "apply_sheet_call conv sb (DoProtectRange rect d us wo) = ProtectRange sb rect d us wo"
| "apply_sheet_call conv sb (DoProtectSheet d us wo) = ProtectSheet sb d us wo"
| "apply_sheet_call conv sb (DoSetForegroundColor rect col) = SetForegroundColor sb rect col"
| "apply_sheet_call conv sb (DoSetBackgroundColor rect col) = SetBackgroundColor sb rect col"
| "apply_sheet_call conv sb (DoSetTabColor col) = SetTabColor sb col"
| "apply_sheet_call conv sb (DoInsertRange rect sd) = InsertRange sb rect sd"
| "apply_sheet_call conv sb (DoInsertAndCopyRange i src r c pt) =
     InsertAndCopyRange sb i src r c pt"
| "apply_sheet_call conv sb (DoDeleteRange rect sd) = DeleteRange sb rect sd"
| "apply_sheet_call conv sb (DoSetLink rect url) = SetLink sb rect url"
| "apply_sheet_call conv sb (DoSetLinkToSheet rect i) = SetLinkToSheet sb rect i"
| "apply_sheet_call conv sb (DoClearRangeValues rect) = ClearRangeValues sb rect"
| "apply_sheet_call conv sb (OnRow s n c) =
     rb_sb (apply_row_call \<lparr>rb_sb = sb, rb_start = s, rb_count = n\<rparr> c)"
| "apply_sheet_call conv sb (OnColumn s n c) =
     cb_sb (apply_column_call \<lparr>cb_sb = sb, cb_start = s, cb_count = n\<rparr> c)"

fun apply_call :: "(int \<Rightarrow> float64) \<Rightarrow> Builder \<Rightarrow> call \<Rightarrow> Builder" where
  "apply_call conv b (DoTitle t) = Title b t"
| "apply_call conv b (DoLocale l) = Locale b l"
| "apply_call conv b (DoTimeZone z) = TimeZone b z"
| "apply_call conv b (DoSheet i) = sb_b (Sheet b i)"
| "apply_call conv b (DoAddSheet i t x) = AddSheet b i t x"
| "apply_call conv b (DoCopySheet i x ns) = CopySheet b i x ns"
| "apply_call conv b (DoCopySheetWithID i x j n) = CopySheetWithID b i x j n"
| "apply_call conv b (DoDeleteSheet is) = DeleteSheet b is"
| "apply_call conv b (DoWithTrace t) = WithTrace b t"
| "apply_call conv b (DoWithLimit l) = WithLimit b l"
| "apply_call conv b (OnSheet i c) =
     sb_b (apply_sheet_call conv \<lparr>sb_b = b, sb_sheetID = i\<rparr> c)"
| "apply_call conv b (DoAppendRequest r) = AppendRequest b r"
| "apply_call conv b (DoPrependRequest r) = PrependRequest b r"

definition run_calls :: "(int \<Rightarrow> float64) \<Rightarrow> Builder \<Rightarrow> call list \<Rightarrow> Builder" where
  "run_calls conv b cs = foldl (apply_call conv) b cs"

text \<open>
  What a sequence of calls says about the spreadsheet's properties: the field a call
  sets and the value it gives to the title, the locale and the time zone, if any; the
  names of the fields set by a sequence, in call order; and the value of the last call
  of a sequence that gives one, the empty string (Go's zero value) when none does.
\<close>

fun field_of :: "call \<Rightarrow> string option" where
  "field_of (DoTitle t) = Some ''title''"
| "field_of (DoLocale l) = Some ''locale''"
| "field_of (DoTimeZone z) = Some ''timeZone''"
| "field_of c = None"







fun is_property_update :: "request \<Rightarrow> bool" where
  "is_property_update (UpdateSpreadsheetPropertiesRequest p f) = True"
| "is_property_update r = False"

text \<open>
  The requests (not nil) that the calls of a sequence stage directly, those appended and
  those prepended, each in call order; and the property updates among them in the order
  in which they are staged: the prepended ones in reverse call order, then the appended
  ones.
\<close>

fun direct_append_of :: "call \<Rightarrow> request option" where
  "direct_append_of (DoAppendRequest r) = r"
| "direct_append_of c = None"

fun direct_prepend_of :: "call \<Rightarrow> request option" where
  "direct_prepend_of (DoPrependRequest r) = r"
| "direct_prepend_of c = None"

fun is_direct :: "call \<Rightarrow> bool" where
  "is_direct (DoAppendRequest r) = True"
| "is_direct (DoPrependRequest r) = True"
| "is_direct c = False"




text \<open>
  What every fluent call other than a property setter does to a builder \<open>b\<close>, giving
  \<open>b'\<close>: the properties and the touched fields stay, errors are only added at the end,
  and no property update is staged or removed.
\<close>

definition keeps_properties :: "Builder \<Rightarrow> Builder \<Rightarrow> bool" where
  "keeps_properties b b' \<longleftrightarrow>
     props b' = props b \<and> propFields b' = propFields b \<and>
     (\<exists>es. errs b' = errs b @ es) \<and>
     filter is_property_update (b_requests b') = filter is_property_update (b_requests b)"

text \<open>A builder that holds nothing: no request, no error, no property.\<close>

definition holds_nothing :: "Builder \<Rightarrow> bool" where
  "holds_nothing b \<longleftrightarrow>
     b_requests b = [] \<and> errs b = [] \<and> props b = None \<and> propFields b = []"



text \<open>
  A caller's direct staging of requests through \<open>AppendRequest\<close> and \<open>PrependRequest\<close>,
  and the requests (not nil) that a sequence of such calls prepends and appends, each in
  call order.
\<close>

datatype staging_call =
    CallAppend "request option"
  | CallPrepend "request option"

fun apply_staging_call :: "Builder \<Rightarrow> staging_call \<Rightarrow> Builder" where
  "apply_staging_call b (CallAppend r) = AppendRequest b r"
| "apply_staging_call b (CallPrepend r) = PrependRequest b r"

definition run_staging :: "Builder \<Rightarrow> staging_call list \<Rightarrow> Builder" where
  "run_staging b cs = foldl apply_staging_call b cs"

fun prepended :: "staging_call list \<Rightarrow> request list" where
  "prepended [] = []"
| "prepended (CallPrepend (Some r) # cs) = r # prepended cs"
| "prepended (c # cs) = prepended cs"

fun appended :: "staging_call list \<Rightarrow> request list" where
  "appended [] = []"
| "appended (CallAppend (Some r) # cs) = r # appended cs"
| "appended (c # cs) = appended cs"

section \<open>Example runs\<close>

text \<open>
  A service that accepts every batch and one that rejects every batch, the world before
  any call, and the executors of the scenarios: limit 3 holding a unit of two requests,
  against either service.
\<close>

definition accepting_service :: sheets_Service where
  "accepting_service h s batch = None"

definition rejecting_service :: sheets_Service where
  "rejecting_service h s batch = Some (errorString ''quota exceeded'')"

definition world0 :: world where
  "world0 = \<lparr>sent = [], observed = []\<rparr>"

definition unit_A :: "request list" where
  "unit_A = [DeleteSheetRequest 1, DeleteSheetRequest 2]"

definition unit_B :: "request list" where
  "unit_B = [DeleteSheetRequest 3, DeleteSheetRequest 4]"

definition holding_A :: "sheets_Service \<Rightarrow> BatchUpdateExecutor" where
  "holding_A svc = fst (Queue (NewBatchUpdateExecutor svc ''doc'' 3) world0 unit_A ''A'')"

section \<open>Properties of the executor\<close>

lemma sent_call_OnFlushStart: "sent (call_OnFlushStart e st w) = sent w"
  by (simp add: call_OnFlushStart_def split: option.splits)

lemma sent_call_OnFlushDone: "sent (call_OnFlushDone e st r w) = sent w"
  by (simp add: call_OnFlushDone_def split: option.splits)

lemma Flush_empty: "requests e = [] \<Longrightarrow> Flush e w = (None, e, w)"
  by (simp add: Flush_def)

lemma Flush_ok:
  assumes "requests e \<noteq> []" and "remote_outcome e w = None"
  shows "fst (Flush e w) = None"
    and "fst (snd (Flush e w)) = e\<lparr>requests := [], units := []\<rparr>"
    and "sent (snd (snd (Flush e w))) = sent w @ [(spreadID e, requests e)]"
  using assms
  by (simp_all add: Flush_def Let_def remote_outcome_def sent_call_OnFlushStart sent_call_OnFlushDone)

lemma Flush_failed:
  assumes "requests e \<noteq> []" and "remote_outcome e w = Some x"
  shows "fst (Flush e w) = Some (BatchUpdateError x (units e))"
    and "fst (snd (Flush e w)) = e"
    and "sent (snd (snd (Flush e w))) = sent w @ [(spreadID e, requests e)]"
  using assms
  by (simp_all add: Flush_def Let_def remote_outcome_def sent_call_OnFlushStart sent_call_OnFlushDone)

lemma Flush_err: "err (fst (snd (Flush e w))) = err e"
proof (cases "requests e = []")
  case True
  then show ?thesis by (simp add: Flush_empty)
next
  case False
  show ?thesis
  proof (cases "remote_outcome e w")
    case None
    then show ?thesis using Flush_ok(2) [OF False] by simp
  next
    case (Some x)
    then show ?thesis using Flush_failed(2) [OF False] by simp
  qed
qed


lemma Queue_sticky: "err e \<noteq> None \<Longrightarrow> Queue e w reqs l = (e, w)"
  by (simp add: Queue_def)

lemma Queue_no_flush:
  "err e = None \<Longrightarrow> \<not> must_flush e reqs \<Longrightarrow>
   Queue e w reqs l = (Queue_admit e (int (length (requests e))) reqs l, w)"
  by (auto simp: Queue_def must_flush_def Let_def)

lemma Queue_flush_ok:
  assumes "err e = None" and "must_flush e reqs" and "remote_outcome e w = None"
  shows "Queue e w reqs l =
           (Queue_admit (e\<lparr>requests := [], units := []\<rparr>) 0 reqs l, snd (snd (Flush e w)))"
proof -
  have ne: "requests e \<noteq> []" using assms(2) by (simp add: must_flush_def)
  obtain r e1 w1 where F: "Flush e w = (r, e1, w1)" by (cases "Flush e w") auto
  have "r = None" "e1 = e\<lparr>requests := [], units := []\<rparr>"
    using Flush_ok(1,2) [OF ne assms(3)] F by simp_all
  then show ?thesis using assms(1,2) ne F
    by (simp add: Queue_def must_flush_def Let_def)
qed

lemma Queue_flush_failed:
  assumes "err e = None" and "must_flush e reqs" and "remote_outcome e w = Some x"
  shows "Queue e w reqs l =
           (e\<lparr>err := Some (BatchUpdateError x (units e))\<rparr>, snd (snd (Flush e w)))"
proof -
  have ne: "requests e \<noteq> []" using assms(2) by (simp add: must_flush_def)
  obtain r e1 w1 where F: "Flush e w = (r, e1, w1)" by (cases "Flush e w") auto
  have "r = Some (BatchUpdateError x (units e))" "e1 = e"
    using Flush_failed(1,2) [OF ne assms(3)] F by simp_all
  then show ?thesis using assms(1,2) ne F
    by (simp add: Queue_def must_flush_def Let_def)
qed

lemma requests_Queue_admit: "requests (Queue_admit e n reqs l) = requests e @ reqs"
  by (simp add: Queue_admit_def Let_def)

lemma err_Queue_admit: "err (Queue_admit e n reqs l) = err e"
  by (simp add: Queue_admit_def Let_def)

lemma units_Queue_admit:
  "\<exists>lab. units (Queue_admit e n reqs l) =
     units e @ [\<lparr>Label = lab, StartIndex = n, EndIndex = n + int (length reqs) - 1,
                 Count = int (length reqs)\<rparr>] \<and> (l \<noteq> [] \<longrightarrow> lab = l)"
  by (simp add: Queue_admit_def Let_def)

lemma Flush_state_cases:
  "fst (snd (Flush e w)) = e \<or> fst (snd (Flush e w)) = e\<lparr>requests := [], units := []\<rparr>"
proof (cases "requests e = []")
  case True
  then show ?thesis by (simp add: Flush_empty)
next
  case False
  show ?thesis
  proof (cases "remote_outcome e w")
    case None
    then show ?thesis using Flush_ok(2) [OF False] by simp
  next
    case (Some x)
    then show ?thesis using Flush_failed(2) [OF False] by simp
  qed
qed

lemma run_executor_snoc:
  "run_executor s (cs @ [c]) = apply_executor_call (run_executor s cs) c"
  by (simp add: run_executor_def)

lemma run_executor_sticky:
  assumes "err e \<noteq> None"
  shows "err (fst (run_executor (e, w) cs)) = err e \<and>
         (requests (fst (run_executor (e, w) cs)) = requests e \<and>
          units (fst (run_executor (e, w) cs)) = units e \<or>
          requests (fst (run_executor (e, w) cs)) = [] \<and>
          units (fst (run_executor (e, w) cs)) = [])"
proof (induction cs rule: rev_induct)
  case Nil
  show ?case by (simp add: run_executor_def)
next
  case (snoc c cs)
  obtain e1 w1 where s: "run_executor (e, w) cs = (e1, w1)"
    by (cases "run_executor (e, w) cs") auto
  have ih: "err e1 = err e"
    "requests e1 = requests e \<and> units e1 = units e \<or> requests e1 = [] \<and> units e1 = []"
    using snoc.IH s by simp_all
  show ?case
  proof (cases c)
    case (CallQueue reqs l)
    have "Queue e1 w1 reqs l = (e1, w1)" using ih(1) assms by (simp add: Queue_sticky)
    then show ?thesis using ih s CallQueue by (simp add: run_executor_snoc)
  next
    case CallFlush
    have st: "run_executor (e, w) (cs @ [c]) = snd (Flush e1 w1)"
      using s CallFlush by (simp add: run_executor_snoc)
    from Flush_state_cases [of e1 w1] show ?thesis
    proof
      assume "fst (snd (Flush e1 w1)) = e1"
      then show ?thesis using ih st by simp
    next
      assume "fst (snd (Flush e1 w1)) = e1\<lparr>requests := [], units := []\<rparr>"
      then show ?thesis using ih st by simp
    qed
  qed
qed

lemmas executor_defs = NewBatchUpdateExecutor_def Queue_def Queue_admit_def Flush_def
  call_OnFlushStart_def call_OnFlushDone_def Let_def

lemmas example_defs = holding_A_def unit_A_def unit_B_def world0_def accepting_service_def
  rejecting_service_def

text \<open>
  Claim C2. A \<open>Flush\<close> on an empty staging buffer returns nil and leaves the executor and
  the world as they are (no remote call). A \<open>Flush\<close> whose remote call succeeds returns
  nil, has sent the buffer as one batch, and leaves the buffer and the units empty, so that
  a \<open>Flush\<close> right after it changes nothing. A \<open>Flush\<close> whose remote call fails with \<open>x\<close>
  leaves the executor as it was and returns a \<open>BatchUpdateError\<close> that unwraps to \<open>x\<close> and
  carries the units retained.
\<close>

theorem Flush_contract:
  "(requests e = [] \<longrightarrow> Flush e w = (None, e, w)) \<and>
   (requests e \<noteq> [] \<and> remote_outcome e w = None \<longrightarrow>
      fst (Flush e w) = None \<and>
      requests (fst (snd (Flush e w))) = [] \<and>
      units (fst (snd (Flush e w))) = [] \<and>
      sent (snd (snd (Flush e w))) = sent w @ [(spreadID e, requests e)] \<and>
      Flush (fst (snd (Flush e w))) (snd (snd (Flush e w))) =
        (None, fst (snd (Flush e w)), snd (snd (Flush e w)))) \<and>
   (\<forall>x. requests e \<noteq> [] \<and> remote_outcome e w = Some x \<longrightarrow>
      fst (Flush e w) = Some (BatchUpdateError x (units e)) \<and>
      Unwrap (BatchUpdateError x (units e)) = Some x \<and>
      requests (fst (snd (Flush e w))) = requests e \<and>
      units (fst (snd (Flush e w))) = units e \<and>
      fst (snd (Flush e w)) = e \<and>
      sent (snd (snd (Flush e w))) = sent w @ [(spreadID e, requests e)])"
proof (intro conjI impI allI)
  assume "requests e = []"
  then show "Flush e w = (None, e, w)" by (rule Flush_empty)
next
  assume a: "requests e \<noteq> [] \<and> remote_outcome e w = None"
  then have ne: "requests e \<noteq> []" and ok: "remote_outcome e w = None" by simp_all
  note r = Flush_ok [OF ne ok]
  show "fst (Flush e w) = None" by (rule r(1))
  show "requests (fst (snd (Flush e w))) = []" by (simp add: r(2))
  show "units (fst (snd (Flush e w))) = []" by (simp add: r(2))
  show "sent (snd (snd (Flush e w))) = sent w @ [(spreadID e, requests e)]" by (rule r(3))
  show "Flush (fst (snd (Flush e w))) (snd (snd (Flush e w))) =
        (None, fst (snd (Flush e w)), snd (snd (Flush e w)))"
    by (rule Flush_empty) (simp add: r(2))
next
  fix x
  assume a: "requests e \<noteq> [] \<and> remote_outcome e w = Some x"
  then have ne: "requests e \<noteq> []" and ko: "remote_outcome e w = Some x" by simp_all
  note r = Flush_failed [OF ne ko]
  show "fst (Flush e w) = Some (BatchUpdateError x (units e))" by (rule r(1))
  show "Unwrap (BatchUpdateError x (units e)) = Some x" by simp
  show "requests (fst (snd (Flush e w))) = requests e" by (simp add: r(2))
  show "units (fst (snd (Flush e w))) = units e" by (simp add: r(2))
  show "fst (snd (Flush e w)) = e" by (rule r(2))
  show "sent (snd (snd (Flush e w))) = sent w @ [(spreadID e, requests e)]" by (rule r(3))
qed

theorem Flush_contract_witness:
  "requests (NewBatchUpdateExecutor accepting_service ''doc'' 3) = [] \<and>
   Flush (NewBatchUpdateExecutor accepting_service ''doc'' 3) world0 =
     (None, NewBatchUpdateExecutor accepting_service ''doc'' 3, world0) \<and>
   requests (holding_A accepting_service) \<noteq> [] \<and>
   remote_outcome (holding_A accepting_service) world0 = None \<and>
   fst (Flush (holding_A accepting_service) world0) = None \<and>
   requests (fst (snd (Flush (holding_A accepting_service) world0))) = [] \<and>
   units (fst (snd (Flush (holding_A accepting_service) world0))) = [] \<and>
   sent (snd (snd (Flush (holding_A accepting_service) world0))) = [(''doc'', unit_A)] \<and>
   requests (holding_A rejecting_service) \<noteq> [] \<and>
   remote_outcome (holding_A rejecting_service) world0 = Some (errorString ''quota exceeded'') \<and>
   fst (Flush (holding_A rejecting_service) world0) =
     Some (BatchUpdateError (errorString ''quota exceeded'')
             [\<lparr>Label = ''A'', StartIndex = 0, EndIndex = 1, Count = 2\<rparr>]) \<and>
   fst (snd (Flush (holding_A rejecting_service) world0)) = holding_A rejecting_service"
  using Flush_contract [of "NewBatchUpdateExecutor accepting_service ''doc'' 3" world0]
    Flush_contract [of "holding_A accepting_service" world0]
    Flush_contract [of "holding_A rejecting_service" world0]
  by (simp add: executor_defs example_defs remote_outcome_def)

text \<open>
  Claim C1. When the sticky error is unset: if the buffer is not empty and the buffered
  count plus the new count exceeds the limit, \<open>Queue\<close> sends exactly one batch, the
  buffer as it was, and, that call succeeding, the buffer then holds the new requests
  only, under one unit, whereas, that call failing, the executor is as it was but for
  the sticky error, now set; if the buffer is not empty and the two counts together stay
  within the limit, \<open>Queue\<close> sends nothing and appends; if the buffer is empty, \<open>Queue\<close>
  sends nothing and admits the new requests whole under one unit, whatever their number
  and the limit.
\<close>

theorem Queue_admission:
  assumes "err e = None"
  shows
    "(requests e \<noteq> [] \<and> int (length (requests e)) + int (length reqs) > limit e \<longrightarrow>
        sent (snd (Queue e w reqs l)) = sent w @ [(spreadID e, requests e)] \<and>
        (remote_outcome e w = None \<longrightarrow>
           requests (fst (Queue e w reqs l)) = reqs \<and>
           err (fst (Queue e w reqs l)) = None \<and>
           (\<exists>lab. units (fst (Queue e w reqs l)) =
              [\<lparr>Label = lab, StartIndex = 0, EndIndex = int (length reqs) - 1,
                Count = int (length reqs)\<rparr>])) \<and>
        (\<forall>x. remote_outcome e w = Some x \<longrightarrow>
           fst (Queue e w reqs l) = e\<lparr>err := Some (BatchUpdateError x (units e))\<rparr>)) \<and>
     (requests e \<noteq> [] \<and> int (length (requests e)) + int (length reqs) \<le> limit e \<longrightarrow>
        snd (Queue e w reqs l) = w \<and>
        requests (fst (Queue e w reqs l)) = requests e @ reqs \<and>
        err (fst (Queue e w reqs l)) = None) \<and>
     (requests e = [] \<longrightarrow>
        snd (Queue e w reqs l) = w \<and>
        requests (fst (Queue e w reqs l)) = reqs \<and>
        err (fst (Queue e w reqs l)) = None \<and>
        (\<exists>lab. units (fst (Queue e w reqs l)) =
           units e @ [\<lparr>Label = lab, StartIndex = 0, EndIndex = int (length reqs) - 1,
                       Count = int (length reqs)\<rparr>]))"
proof (intro conjI impI allI)
  assume a: "requests e \<noteq> [] \<and> int (length (requests e)) + int (length reqs) > limit e"
  then have mf: "must_flush e reqs" and ne: "requests e \<noteq> []" by (simp_all add: must_flush_def)
  {
    fix x
    assume ko: "remote_outcome e w = Some x"
    show "fst (Queue e w reqs l) = e\<lparr>err := Some (BatchUpdateError x (units e))\<rparr>"
      by (simp add: Queue_flush_failed [OF assms mf ko])
  }
  show "sent (snd (Queue e w reqs l)) = sent w @ [(spreadID e, requests e)]"
  proof (cases "remote_outcome e w")
    case None
    show ?thesis using Queue_flush_ok [OF assms mf None] Flush_ok(3) [OF ne None] by simp
  next
    case (Some x)
    show ?thesis using Queue_flush_failed [OF assms mf Some] Flush_failed(3) [OF ne Some] by simp
  qed
  assume ok: "remote_outcome e w = None"
  note q = Queue_flush_ok [OF assms mf ok, of l]
  show "requests (fst (Queue e w reqs l)) = reqs" by (simp add: q requests_Queue_admit)
  show "err (fst (Queue e w reqs l)) = None" by (simp add: q err_Queue_admit assms)
  show "\<exists>lab. units (fst (Queue e w reqs l)) =
          [\<lparr>Label = lab, StartIndex = 0, EndIndex = int (length reqs) - 1,
            Count = int (length reqs)\<rparr>]"
    using units_Queue_admit [of "e\<lparr>requests := [], units := []\<rparr>" 0 reqs l] by (auto simp: q)
next
  assume "requests e \<noteq> [] \<and> int (length (requests e)) + int (length reqs) \<le> limit e"
  then have nf: "\<not> must_flush e reqs" by (simp add: must_flush_def)
  note q = Queue_no_flush [OF assms nf, of w l]
  show "snd (Queue e w reqs l) = w" by (simp add: q)
  show "requests (fst (Queue e w reqs l)) = requests e @ reqs"
    by (simp add: q requests_Queue_admit)
  show "err (fst (Queue e w reqs l)) = None" by (simp add: q err_Queue_admit assms)
next
  assume emp: "requests e = []"
  then have nf: "\<not> must_flush e reqs" by (simp add: must_flush_def)
  note q = Queue_no_flush [OF assms nf, of w l]
  show "snd (Queue e w reqs l) = w" by (simp add: q)
  show "requests (fst (Queue e w reqs l)) = reqs" by (simp add: q requests_Queue_admit emp)
  show "err (fst (Queue e w reqs l)) = None" by (simp add: q err_Queue_admit assms)
  show "\<exists>lab. units (fst (Queue e w reqs l)) =
           units e @ [\<lparr>Label = lab, StartIndex = 0, EndIndex = int (length reqs) - 1,
                       Count = int (length reqs)\<rparr>]"
    using units_Queue_admit [of e 0 reqs l] by (auto simp: q emp)
qed

theorem Queue_admission_witness:
  "err (holding_A accepting_service) = None \<and>
   requests (holding_A accepting_service) \<noteq> [] \<and>
   int (length (requests (holding_A accepting_service))) + int (length unit_B)
     > limit (holding_A accepting_service) \<and>
   remote_outcome (holding_A accepting_service) world0 = None \<and>
   sent (snd (Queue (holding_A accepting_service) world0 unit_B ''B'')) = [(''doc'', unit_A)] \<and>
   requests (fst (Queue (holding_A accepting_service) world0 unit_B ''B'')) = unit_B \<and>
   err (NewBatchUpdateExecutor accepting_service ''doc'' 1) = None \<and>
   requests (NewBatchUpdateExecutor accepting_service ''doc'' 1) = [] \<and>
   snd (Queue (NewBatchUpdateExecutor accepting_service ''doc'' 1) world0 (unit_A @ unit_B) ''AB'')
     = world0 \<and>
   requests (fst (Queue (NewBatchUpdateExecutor accepting_service ''doc'' 1) world0
                    (unit_A @ unit_B) ''AB'')) = unit_A @ unit_B \<and>
   err (holding_A rejecting_service) = None \<and>
   requests (holding_A rejecting_service) \<noteq> [] \<and>
   int (length (requests (holding_A rejecting_service))) + int (length unit_B)
     > limit (holding_A rejecting_service) \<and>
   remote_outcome (holding_A rejecting_service) world0 = Some (errorString ''quota exceeded'') \<and>
   sent (snd (Queue (holding_A rejecting_service) world0 unit_B ''B'')) = [(''doc'', unit_A)] \<and>
   requests (fst (Queue (holding_A rejecting_service) world0 unit_B ''B'')) = unit_A \<and>
   int (length (requests (holding_A accepting_service))) + int (length [DeleteSheetRequest 5])
     \<le> limit (holding_A accepting_service) \<and>
   snd (Queue (holding_A accepting_service) world0 [DeleteSheetRequest 5] ''C'') = world0 \<and>
   requests (fst (Queue (holding_A accepting_service) world0 [DeleteSheetRequest 5] ''C'')) =
     unit_A @ [DeleteSheetRequest 5]"
  using Queue_admission [of "holding_A accepting_service" unit_B world0 "''B''"]
    Queue_admission [of "NewBatchUpdateExecutor accepting_service ''doc'' 1" "unit_A @ unit_B"
      world0 "''AB''"]
    Queue_admission [of "holding_A rejecting_service" unit_B world0 "''B''"]
    Queue_admission [of "holding_A accepting_service" "[DeleteSheetRequest 5]" world0 "''C''"]
  by (simp add: executor_defs example_defs remote_outcome_def)

text \<open>
  Claim C3. An explicit \<open>Flush\<close> never changes the sticky error; a \<open>Queue\<close> on an
  executor without sticky error sets it exactly when the guard of the implicit flush
  holds and the remote call of that flush fails; and once the sticky error is set, a
  \<open>Queue\<close> returns the executor and the world as they were, the error stays what it is
  over every sequence of \<open>Queue\<close> and \<open>Flush\<close> calls, and over such a sequence the buffer
  and the units are either what they were or emptied (by a \<open>Flush\<close>): nothing is admitted.
\<close>

theorem sticky_error_contract:
  "err (fst (snd (Flush e w))) = err e \<and>
   (err e = None \<longrightarrow>
      (err (fst (Queue e w reqs l)) \<noteq> None) =
      (requests e \<noteq> [] \<and> int (length (requests e)) + int (length reqs) > limit e \<and>
       remote_outcome e w \<noteq> None)) \<and>
   (err e \<noteq> None \<longrightarrow>
      Queue e w reqs l = (e, w) \<and>
      err (fst (run_executor (e, w) cs)) = err e \<and>
      (requests (fst (run_executor (e, w) cs)) = requests e \<and>
       units (fst (run_executor (e, w) cs)) = units e \<or>
       requests (fst (run_executor (e, w) cs)) = [] \<and>
       units (fst (run_executor (e, w) cs)) = []))"
proof (intro conjI impI)
  show "err (fst (snd (Flush e w))) = err e" by (rule Flush_err)
next
  assume n: "err e = None"
  show "(err (fst (Queue e w reqs l)) \<noteq> None) =
      (requests e \<noteq> [] \<and> int (length (requests e)) + int (length reqs) > limit e \<and>
       remote_outcome e w \<noteq> None)"
  proof (cases "must_flush e reqs")
    case False
    then show ?thesis using Queue_no_flush [OF n False, of w l] n
      by (auto simp: err_Queue_admit must_flush_def)
  next
    case True
    show ?thesis
    proof (cases "remote_outcome e w")
      case None
      then show ?thesis using Queue_flush_ok [OF n True None, of l] n True
        by (auto simp: err_Queue_admit must_flush_def)
    next
      case (Some x)
      then show ?thesis using Queue_flush_failed [OF n True Some, of l] True
        by (auto simp: must_flush_def)
    qed
  qed
next
  assume s: "err e \<noteq> None"
  show "Queue e w reqs l = (e, w)" using s by (rule Queue_sticky)
  show "err (fst (run_executor (e, w) cs)) = err e"
    using run_executor_sticky [OF s] by blast
  show "requests (fst (run_executor (e, w) cs)) = requests e \<and>
       units (fst (run_executor (e, w) cs)) = units e \<or>
       requests (fst (run_executor (e, w) cs)) = [] \<and>
       units (fst (run_executor (e, w) cs)) = []"
    using run_executor_sticky [OF s] by blast
qed

theorem sticky_error_contract_witness:
  "err (holding_A rejecting_service) = None \<and>
   requests (holding_A rejecting_service) \<noteq> [] \<and>
   int (length (requests (holding_A rejecting_service))) + int (length unit_B)
     > limit (holding_A rejecting_service) \<and>
   remote_outcome (holding_A rejecting_service) world0 \<noteq> None \<and>
   err (fst (Queue (holding_A rejecting_service) world0 unit_B ''B'')) \<noteq> None \<and>
   Queue (fst (Queue (holding_A rejecting_service) world0 unit_B ''B'')) world0 unit_B ''C'' =
     (fst (Queue (holding_A rejecting_service) world0 unit_B ''B''), world0) \<and>
   err (fst (run_executor (fst (Queue (holding_A rejecting_service) world0 unit_B ''B''), world0)
               [CallQueue unit_B ''C'', CallFlush, CallQueue unit_A ''D''])) =
     err (fst (Queue (holding_A rejecting_service) world0 unit_B ''B''))"
  using sticky_error_contract [of "holding_A rejecting_service" world0 unit_B "''B''" "[]"]
    sticky_error_contract [of "fst (Queue (holding_A rejecting_service) world0 unit_B ''B'')"
      world0 unit_B "''C''" "[CallQueue unit_B ''C'', CallFlush, CallQueue unit_A ''D'']"]
  by (simp add: executor_defs example_defs remote_outcome_def)

section \<open>Properties of the builder\<close>

lemma keeps_refl: "keeps_properties b b"
  by (simp add: keeps_properties_def)

lemma keeps_trans: "keeps_properties a b \<Longrightarrow> keeps_properties b c \<Longrightarrow> keeps_properties a c"
  by (auto simp: keeps_properties_def)

lemma keeps_appendError: "keeps_properties b (appendError b e)"
  by (simp add: keeps_properties_def appendError_def split: option.splits)

lemma keeps_AppendRequest:
  "\<not> is_property_update r \<Longrightarrow> keeps_properties b (AppendRequest b (Some r))"
  by (simp add: keeps_properties_def AppendRequest_def)

lemma keeps_PrependRequest:
  "\<not> is_property_update r \<Longrightarrow> keeps_properties b (PrependRequest b (Some r))"
  by (simp add: keeps_properties_def PrependRequest_def)

lemma keeps_sb_appendError: "keeps_properties (sb_b sb) (sb_b (sb_appendError sb e))"
  by (simp add: sb_appendError_def keeps_appendError)

lemma keeps_sb_AppendRequest:
  "\<not> is_property_update r \<Longrightarrow> keeps_properties (sb_b sb) (sb_b (sb_AppendRequest sb r))"
  by (simp add: sb_AppendRequest_def keeps_AppendRequest)

lemma keeps_sb_PrependRequest:
  "\<not> is_property_update r \<Longrightarrow> keeps_properties (sb_b sb) (sb_b (sb_PrependRequest sb r))"
  by (simp add: sb_PrependRequest_def keeps_PrependRequest)

lemmas keeps_sb = keeps_sb_appendError keeps_sb_AppendRequest keeps_sb_PrependRequest

lemma keeps_updateDimension:
  "keeps_properties (sb_b sb) (sb_b (updateDimension sb d s n p f))"
  by (simp add: updateDimension_def keeps_sb)

lemma keeps_clearValues: "keeps_properties (sb_b sb) (sb_b (clearValues sb r c h wd))"
  by (simp add: clearValues_def Let_def keeps_sb)

lemma keeps_SetRowsHidden: "keeps_properties (sb_b sb) (sb_b (SetRowsHidden sb s n h))"
  by (simp add: SetRowsHidden_def keeps_sb keeps_updateDimension)

lemma keeps_SetColumnsHidden: "keeps_properties (sb_b sb) (sb_b (SetColumnsHidden sb s n h))"
  by (simp add: SetColumnsHidden_def keeps_sb keeps_updateDimension)

lemma keeps_apply_row_call:
  "keeps_properties (sb_b (rb_sb rb)) (sb_b (rb_sb (apply_row_call rb c)))"
  by (cases c)
    (simp_all add: RowBuilder_Hide_def RowBuilder_Show_def SetHeight_def keeps_sb
      keeps_updateDimension keeps_SetRowsHidden)

lemma keeps_apply_column_call:
  "keeps_properties (sb_b (cb_sb cb)) (sb_b (cb_sb (apply_column_call cb c)))"
  by (cases c)
    (simp_all add: ColumnBuilder_Hide_def ColumnBuilder_Show_def SetWidth_def keeps_sb
      keeps_updateDimension keeps_SetColumnsHidden)

lemma keeps_isRectInvalid:
  "keeps_properties (sb_b sb) (sb_b (snd (isRectInvalid sb rect l n)))"
  by (simp add: isRectInvalid_def keeps_sb keeps_refl split: option.splits)

lemma sheetID_isRectInvalid: "sb_sheetID (snd (isRectInvalid sb rect l n)) = sb_sheetID sb"
  by (simp add: isRectInvalid_def sb_appendError_def split: option.splits)

lemma keeps_after_isRectInvalid:
  assumes "\<And>sb1. keeps_properties (sb_b sb1) (sb_b (f sb1))"
  shows "keeps_properties (sb_b sb)
           (sb_b (case isRectInvalid sb rect l n of (True, sb1) \<Rightarrow> sb1 | (False, sb1) \<Rightarrow> f sb1))"
proof (cases "isRectInvalid sb rect l n")
  case (Pair r sb1)
  have k: "keeps_properties (sb_b sb) (sb_b sb1)"
    using keeps_isRectInvalid [of sb rect l n] Pair by simp
  show ?thesis using keeps_trans [OF k assms [of sb1]] k Pair by (cases r) simp_all
qed

lemma keeps_CopyRange: "keeps_properties (sb_b sb) (sb_b (CopyRange sb i src r c pt))"
  unfolding CopyRange_def
  by (auto intro!: keeps_after_isRectInvalid simp: keeps_sb keeps_refl Let_def
      split: option.splits)

lemma keeps_FillDownFrom: "keeps_properties (sb_b sb) (sb_b (FillDownFrom sb i src r c h pt))"
  unfolding FillDownFrom_def
  by (auto intro!: keeps_after_isRectInvalid simp: keeps_sb keeps_refl Let_def
      split: option.splits)

lemma keeps_Merge: "keeps_properties (sb_b sb) (sb_b (Merge sb rect mt))"
  by (simp add: Merge_def keeps_sb Let_def split: option.splits)

lemma keeps_addProtectedRangeRequest:
  "keeps_properties (sb_b sb) (sb_b (addProtectedRangeRequest sb d us wo rng))"
  by (simp add: addProtectedRangeRequest_def keeps_sb Let_def)

lemma keeps_ProtectRange: "keeps_properties (sb_b sb) (sb_b (ProtectRange sb rect d us wo))"
  unfolding ProtectRange_def
  by (auto intro!: keeps_after_isRectInvalid simp: keeps_addProtectedRangeRequest keeps_refl
      split: option.splits)

lemma keeps_SetForegroundColor:
  "keeps_properties (sb_b sb) (sb_b (SetForegroundColor sb rect col))"
  unfolding SetForegroundColor_def
  by (auto intro!: keeps_after_isRectInvalid simp: keeps_sb keeps_refl split: option.splits)

lemma keeps_SetBackgroundColor:
  "keeps_properties (sb_b sb) (sb_b (SetBackgroundColor sb rect col))"
  unfolding SetBackgroundColor_def
  by (auto intro!: keeps_after_isRectInvalid simp: keeps_sb keeps_refl split: option.splits)

lemma keeps_SetTabColor: "keeps_properties (sb_b sb) (sb_b (SetTabColor sb col))"
  by (simp add: SetTabColor_def keeps_sb split: option.splits)

lemma keeps_InsertRange: "keeps_properties (sb_b sb) (sb_b (InsertRange sb rect sd))"
  unfolding InsertRange_def
  by (auto intro!: keeps_after_isRectInvalid simp: keeps_sb keeps_refl Let_def
      split: option.splits)

lemma keeps_DeleteRange: "keeps_properties (sb_b sb) (sb_b (DeleteRange sb rect sd))"
  unfolding DeleteRange_def
  by (auto intro!: keeps_after_isRectInvalid simp: keeps_sb keeps_refl Let_def
      split: option.splits)

lemma keeps_SetLink: "keeps_properties (sb_b sb) (sb_b (SetLink sb rect url))"
  unfolding SetLink_def
  by (auto intro!: keeps_after_isRectInvalid simp: keeps_sb keeps_refl split: option.splits)

lemma keeps_SetLinkToSheet: "keeps_properties (sb_b sb) (sb_b (SetLinkToSheet sb rect i))"
  unfolding SetLinkToSheet_def
  by (auto intro!: keeps_after_isRectInvalid simp: keeps_sb keeps_refl keeps_SetLink Let_def)

lemma keeps_ClearRangeValues: "keeps_properties (sb_b sb) (sb_b (ClearRangeValues sb rect))"
  unfolding ClearRangeValues_def
  by (auto intro!: keeps_after_isRectInvalid simp: keeps_clearValues keeps_refl
      split: option.splits)

lemma keeps_InsertAndCopyRange:
  "keeps_properties (sb_b sb) (sb_b (InsertAndCopyRange sb i src r c pt))"
proof -
  have step: "keeps_properties (sb_b sb1)
      (sb_b (CopyRange (InsertRange sb1 rect sd) i src' r c pt'))" for sb1 rect sd src' pt'
    by (rule keeps_trans [OF keeps_InsertRange keeps_CopyRange])
  show ?thesis
    unfolding InsertAndCopyRange_def
    by (auto intro!: keeps_after_isRectInvalid simp: keeps_sb keeps_refl step Let_def
        split: option.splits)
qed

lemma keeps_apply_sheet_call:
  "keeps_properties (sb_b sb) (sb_b (apply_sheet_call conv sb c))"
proof (cases c)
  case (OnRow s n rc)
  show ?thesis
    using keeps_apply_row_call [of "\<lparr>rb_sb = sb, rb_start = s, rb_count = n\<rparr>" rc] OnRow by simp
next
  case (OnColumn s n cc)
  show ?thesis
    using keeps_apply_column_call [of "\<lparr>cb_sb = sb, cb_start = s, cb_count = n\<rparr>" cc] OnColumn
    by simp
qed (simp_all add: Row_def Column_def ExpandRows_def ExpandColumns_def InsertColumns_def
      SetCellValue_def SetRowValues_def SetRangeValues_def SetHidden_def SheetBuilder_Hide_def
      SheetBuilder_Show_def ClearColValues_def ClearRowValues_def Let_def keeps_sb keeps_refl
      keeps_SetRowsHidden keeps_SetColumnsHidden keeps_clearValues keeps_CopyRange
      keeps_FillDownFrom keeps_Merge MergeRows_def MergeCols_def keeps_ProtectRange
      ProtectSheet_def keeps_addProtectedRangeRequest keeps_SetForegroundColor
      keeps_SetBackgroundColor keeps_SetTabColor keeps_InsertRange keeps_InsertAndCopyRange
      keeps_DeleteRange keeps_SetLink keeps_SetLinkToSheet keeps_ClearRangeValues)

lemma keeps_CopySheet_loop: "keeps_properties b (CopySheet_loop b src to cur names)"
proof (induction names arbitrary: b cur)
  case Nil
  show ?case by (simp add: keeps_refl)
next
  case (Cons n names)
  have "keeps_properties b (CopySheet_loop (AppendRequest b (Some r)) src to c names)"
    if "\<not> is_property_update r" for r c
    using keeps_trans [OF keeps_AppendRequest Cons.IH] that by blast
  then show ?case by (simp add: Let_def)
qed

lemma keeps_DeleteSheet_loop: "keeps_properties b (DeleteSheet_loop b ids)"
proof (induction ids arbitrary: b)
  case Nil
  show ?case by (simp add: keeps_refl)
next
  case (Cons i ids)
  show ?case
    by simp (rule keeps_trans [OF keeps_AppendRequest Cons.IH], simp)
qed

lemma keeps_apply_call:
  assumes "field_of c = None" and "\<not> is_direct c"
  shows "keeps_properties b (apply_call conv b c)"
proof (cases c)
  case (OnSheet i sc)
  show ?thesis
    using keeps_apply_sheet_call [of "\<lparr>sb_b = b, sb_sheetID = i\<rparr>" conv sc] OnSheet by simp
next
  case (DoWithTrace t)
  then show ?thesis by (simp add: WithTrace_def keeps_properties_def split: option.splits)
next
  case (DoWithLimit l)
  then show ?thesis by (simp add: WithLimit_def keeps_properties_def split: option.splits)
next
  case (DoAddSheet i t x)
  then show ?thesis by (simp add: AddSheet_def keeps_properties_def Let_def)
qed (use assms in \<open>simp_all add: Sheet_def CopySheet_def CopySheetWithID_def DeleteSheet_def
      keeps_appendError keeps_AppendRequest keeps_refl keeps_CopySheet_loop
      keeps_DeleteSheet_loop\<close>)


lemma ensureProps_fields:
  "props (ensureProps b) =
     Some (case props b of None \<Rightarrow> \<lparr>sp_Title = [], sp_Locale = [], sp_TimeZone = []\<rparr>
           | Some p \<Rightarrow> p)"
  "propFields (ensureProps b) = propFields b"
  "errs (ensureProps b) = errs b"
  "b_requests (ensureProps b) = b_requests b"
  by (simp_all add: ensureProps_def split: option.splits)

lemma Title_fields:
  "props (Title b t) =
     Some ((case props b of None \<Rightarrow> \<lparr>sp_Title = [], sp_Locale = [], sp_TimeZone = []\<rparr>
            | Some p \<Rightarrow> p)\<lparr>sp_Title := t\<rparr>)"
  "propFields (Title b t) = propFields b @ [''title'']"
  "errs (Title b t) = errs b"
  "b_requests (Title b t) = b_requests b"
  by (simp_all add: Title_def Let_def ensureProps_fields)

lemma Locale_fields:
  "props (Locale b t) =
     Some ((case props b of None \<Rightarrow> \<lparr>sp_Title = [], sp_Locale = [], sp_TimeZone = []\<rparr>
            | Some p \<Rightarrow> p)\<lparr>sp_Locale := t\<rparr>)"
  "propFields (Locale b t) = propFields b @ [''locale'']"
  "errs (Locale b t) = errs b"
  "b_requests (Locale b t) = b_requests b"
  by (simp_all add: Locale_def Let_def ensureProps_fields)

lemma TimeZone_fields:
  "props (TimeZone b t) =
     Some ((case props b of None \<Rightarrow> \<lparr>sp_Title = [], sp_Locale = [], sp_TimeZone = []\<rparr>
            | Some p \<Rightarrow> p)\<lparr>sp_TimeZone := t\<rparr>)"
  "propFields (TimeZone b t) = propFields b @ [''timeZone'']"
  "errs (TimeZone b t) = errs b"
  "b_requests (TimeZone b t) = b_requests b"
  by (simp_all add: TimeZone_def Let_def ensureProps_fields)


lemma run_calls_snoc: "run_calls conv b (cs @ [c]) = apply_call conv (run_calls conv b cs) c"
  by (simp add: run_calls_def)







lemma direct_call_fields:
  assumes "is_direct c"
  shows "props (apply_call conv b c) = props b"
    and "propFields (apply_call conv b c) = propFields b"
    and "errs (apply_call conv b c) = errs b"
    and "filter is_property_update (b_requests (apply_call conv b c)) =
           filter is_property_update (case_option [] (\<lambda>r. [r]) (direct_prepend_of c)) @
           filter is_property_update (b_requests b) @
           filter is_property_update (case_option [] (\<lambda>r. [r]) (direct_append_of c))"
  using assms
  by (cases c; simp add: AppendRequest_def PrependRequest_def split: option.splits)+

lemma direct_no_field: "is_direct c \<Longrightarrow> field_of c = None"
  by (cases c) simp_all










lemma errors_Join_nonempty: "es \<noteq> [] \<Longrightarrow> errors_Join (map Some es) = Some (joinError es)"
proof -
  have "List.map_filter id (map Some es) = es"
    by (induction es) (simp_all add: List.map_filter_simps)
  then show "es \<noteq> [] \<Longrightarrow> errors_Join (map Some es) = Some (joinError es)"
    by (cases es) (simp_all add: errors_Join_def)
qed

lemma Requests_errors: "errs b \<noteq> [] \<Longrightarrow> Requests b = (([], Some (joinError (errs b))), b)"
  by (simp add: Requests_def errors_Join_nonempty)

lemma Requests_untouched:
  "errs b = [] \<Longrightarrow> props b = None \<or> propFields b = [] \<Longrightarrow>
   Requests b = ((b_requests b, None), b)"
  by (auto simp: Requests_def Let_def split: option.splits)

lemma Requests_touched:
  "errs b = [] \<Longrightarrow> props b = Some p \<Longrightarrow> propFields b \<noteq> [] \<Longrightarrow>
   Requests b =
     ((UpdateSpreadsheetPropertiesRequest p (strings_Join (propFields b) '','') # b_requests b,
       None), b)"
  by (simp add: Requests_def Let_def)

lemma errs_apply_call: "\<exists>es. errs (apply_call conv b c) = errs b @ es"
proof (cases "field_of c")
  case None
  show ?thesis
  proof (cases "is_direct c")
    case False
    then show ?thesis using None keeps_apply_call [of c b conv] by (simp add: keeps_properties_def)
  next
    case True
    then show ?thesis by (simp add: direct_call_fields)
  qed
next
  case (Some n)
  then show ?thesis by (cases c) (simp_all add: Title_fields Locale_fields TimeZone_fields)
qed

lemma errs_run_calls: "\<exists>es. errs (run_calls conv b cs) = errs b @ es"
proof (induction cs rule: rev_induct)
  case Nil
  show ?case by (simp add: run_calls_def)
next
  case (snoc c cs)
  then obtain es where a: "errs (run_calls conv b cs) = errs b @ es" by blast
  obtain es' where "errs (apply_call conv (run_calls conv b cs) c) = errs (run_calls conv b cs) @ es'"
    using errs_apply_call by blast
  then show ?case using a by (simp add: run_calls_snoc)
qed

lemma run_staging_Cons: "run_staging b (c # cs) = run_staging (apply_staging_call b c) cs"
  by (simp add: run_staging_def)

lemma run_staging_fields:
  "b_requests (run_staging b cs) = rev (prepended cs) @ b_requests b @ appended cs \<and>
   errs (run_staging b cs) = errs b \<and> props (run_staging b cs) = props b \<and>
   propFields (run_staging b cs) = propFields b"
proof (induction cs arbitrary: b)
  case Nil
  show ?case by (simp add: run_staging_def)
next
  case (Cons c cs)
  show ?case
  proof (cases c)
    case (CallAppend r)
    then show ?thesis using Cons.IH [of "AppendRequest b r"]
      by (cases r) (simp_all add: run_staging_Cons AppendRequest_def)
  next
    case (CallPrepend r)
    then show ?thesis using Cons.IH [of "PrependRequest b r"]
      by (cases r) (simp_all add: run_staging_Cons PrependRequest_def)
  qed
qed

lemmas builder_defs = NewBuilder_def Title_def Locale_def TimeZone_def ensureProps_def
  AddSheet_def AppendRequest_def PrependRequest_def appendError_def Sheet_def ExpandRows_def
  SetCellValue_def toCellData_def sb_appendError_def sb_AppendRequest_def sb_PrependRequest_def
  Requests_def Let_def itoa_def itoa_nat.simps errors_Join_def

lemma holds_nothing_NewBuilder: "holds_nothing NewBuilder"
  by (simp add: holds_nothing_def NewBuilder_def)

lemma holds_nothing_Client_Builder: "holds_nothing (Client_Builder c)"
  by (simp add: holds_nothing_def Client_Builder_def NewBuilder_def)

lemma holds_nothing_Reset: "holds_nothing (Reset b)"
  by (simp add: holds_nothing_def Reset_def)




text \<open>
  Claim C5. When the list of errors of a builder is not empty, finalization returns no
  request and an aggregate of all the errors recorded; and after any further fluent
  calls the errors recorded before are still there, in front of the new ones, and
  finalization still returns no request and the aggregate of them all.
\<close>

theorem Requests_fails_on_errors:
  assumes "errs b \<noteq> []"
  shows
    "fst (Requests b) = ([], Some (joinError (errs b))) \<and>
     (\<exists>es. errs (run_calls conv b cs) = errs b @ es \<and>
           fst (Requests (run_calls conv b cs)) = ([], Some (joinError (errs b @ es))))"
proof
  show "fst (Requests b) = ([], Some (joinError (errs b)))"
    using assms by (simp add: Requests_errors)
  obtain es where a: "errs (run_calls conv b cs) = errs b @ es" using errs_run_calls by blast
  then have "errs (run_calls conv b cs) \<noteq> []" using assms by simp
  then have "fst (Requests (run_calls conv b cs)) = ([], Some (joinError (errs b @ es)))"
    using a by (simp add: Requests_errors)
  then show "\<exists>es. errs (run_calls conv b cs) = errs b @ es \<and>
           fst (Requests (run_calls conv b cs)) = ([], Some (joinError (errs b @ es)))"
    using a by blast
qed

theorem Requests_fails_on_errors_witness:
  "errs (run_calls word_of_int NewBuilder
     [OnSheet 0 (DoSetCellValue (-1) 0 (AnyString ''x'')),
      OnSheet 0 (DoSetCellValue 0 (-1) (AnyString ''y''))]) \<noteq> [] \<and>
   fst (Requests (run_calls word_of_int NewBuilder
     [OnSheet 0 (DoSetCellValue (-1) 0 (AnyString ''x'')),
      OnSheet 0 (DoSetCellValue 0 (-1) (AnyString ''y''))])) =
     ([], Some (joinError [errorString ''SetCellValue: invalid row: -1'',
                           errorString ''SetCellValue: invalid col: -1''])) \<and>
   fst (Requests (run_calls word_of_int
     (run_calls word_of_int NewBuilder
       [OnSheet 0 (DoSetCellValue (-1) 0 (AnyString ''x'')),
        OnSheet 0 (DoSetCellValue 0 (-1) (AnyString ''y''))])
     [DoTitle ''Report'', DoAddSheet 1 ''Data'' 0])) =
     ([], Some (joinError [errorString ''SetCellValue: invalid row: -1'',
                           errorString ''SetCellValue: invalid col: -1'']))"
  using Requests_fails_on_errors [of "run_calls word_of_int NewBuilder
     [OnSheet 0 (DoSetCellValue (-1) 0 (AnyString ''x'')),
      OnSheet 0 (DoSetCellValue 0 (-1) (AnyString ''y''))]" word_of_int
     "[DoTitle ''Report'', DoAddSheet 1 ''Data'' 0]"]
  by (simp add: builder_defs run_calls_def)

text \<open>
  Claim C9. Finalization leaves the builder as it is, its staged requests, its properties
  and its touched fields in particular, and a second finalization right after the first
  returns what the first returned.
\<close>

theorem Requests_idempotent:
  "snd (Requests b) = b \<and>
   fst (Requests (snd (Requests b))) = fst (Requests b) \<and>
   b_requests (snd (Requests b)) = b_requests b \<and>
   props (snd (Requests b)) = props b \<and>
   propFields (snd (Requests b)) = propFields b"
proof -
  have "snd (Requests b) = b" by (simp add: Requests_def Let_def)
  then show ?thesis by simp
qed

text \<open>
  Claim C8, as amended. A prepend of a request that is not nil places it before
  everything staged, and \<open>ExpandRows\<close> with a count that is not negative is such a
  prepend; after any sequence of prepends and appends the staged requests are
  the prepended ones in reverse call order, then what was staged before, then the
  appended ones in call order. With no validation error recorded, finalization returns
  this sequence as it is when no property field has been touched, and otherwise this
  sequence behind the one property update, which then is first.
\<close>

theorem prepend_order:
  "b_requests (PrependRequest b (Some r)) = r # b_requests b \<and>
   (0 \<le> n \<longrightarrow>
      sb_b (ExpandRows sb n) =
        PrependRequest (sb_b sb) (Some (AppendDimensionRequest (sb_sheetID sb) ''ROWS'' n))) \<and>
   b_requests (run_staging b cs) = rev (prepended cs) @ b_requests b @ appended cs \<and>
   (errs b = [] \<and> (props b = None \<or> propFields b = []) \<longrightarrow>
      fst (Requests (run_staging b cs)) =
        (rev (prepended cs) @ b_requests b @ appended cs, None)) \<and>
   (\<forall>p. errs b = [] \<and> props b = Some p \<and> propFields b \<noteq> [] \<longrightarrow>
      fst (Requests (run_staging b cs)) =
        (UpdateSpreadsheetPropertiesRequest p (strings_Join (propFields b) '','') #
         rev (prepended cs) @ b_requests b @ appended cs, None))"
proof (intro conjI impI allI)
  show "b_requests (PrependRequest b (Some r)) = r # b_requests b"
    by (simp add: PrependRequest_def)
  show "sb_b (ExpandRows sb n) =
        PrependRequest (sb_b sb) (Some (AppendDimensionRequest (sb_sheetID sb) ''ROWS'' n))"
    if "0 \<le> n"
    using that by (simp add: ExpandRows_def sb_PrependRequest_def)
  show "b_requests (run_staging b cs) = rev (prepended cs) @ b_requests b @ appended cs"
    by (simp add: run_staging_fields)
next
  assume "errs b = [] \<and> (props b = None \<or> propFields b = [])"
  then show "fst (Requests (run_staging b cs)) =
        (rev (prepended cs) @ b_requests b @ appended cs, None)"
    using Requests_untouched [of "run_staging b cs"] by (auto simp: run_staging_fields)
next
  fix p
  assume "errs b = [] \<and> props b = Some p \<and> propFields b \<noteq> []"
  then show "fst (Requests (run_staging b cs)) =
        (UpdateSpreadsheetPropertiesRequest p (strings_Join (propFields b) '','') #
         rev (prepended cs) @ b_requests b @ appended cs, None)"
    using Requests_touched [of "run_staging b cs" p] by (simp add: run_staging_fields)
qed

theorem prepend_order_witness:
  "(0::int) \<le> 3 \<and>
   b_requests (sb_b (ExpandRows (Sheet NewBuilder 0) 3)) = [AppendDimensionRequest 0 ''ROWS'' 3] \<and>
   errs NewBuilder = [] \<and> props NewBuilder = None \<and>
   fst (Requests (run_staging NewBuilder
     [CallPrepend (Some (DeleteSheetRequest 1)), CallAppend (Some (DeleteSheetRequest 2)),
      CallPrepend None, CallPrepend (Some (DeleteSheetRequest 3))])) =
     ([DeleteSheetRequest 3, DeleteSheetRequest 1, DeleteSheetRequest 2], None) \<and>
   errs (Title NewBuilder ''Report'') = [] \<and>
   props (Title NewBuilder ''Report'') =
     Some \<lparr>sp_Title = ''Report'', sp_Locale = [], sp_TimeZone = []\<rparr> \<and>
   propFields (Title NewBuilder ''Report'') \<noteq> [] \<and>
   fst (Requests (run_staging (Title NewBuilder ''Report'')
     [CallPrepend (Some (DeleteSheetRequest 1)), CallAppend (Some (DeleteSheetRequest 2)),
      CallPrepend None, CallPrepend (Some (DeleteSheetRequest 3))])) =
     ([UpdateSpreadsheetPropertiesRequest
         \<lparr>sp_Title = ''Report'', sp_Locale = [], sp_TimeZone = []\<rparr> ''title'',
       DeleteSheetRequest 3, DeleteSheetRequest 1, DeleteSheetRequest 2], None)"
  using prepend_order [of NewBuilder "DeleteSheetRequest 1" 3 "Sheet NewBuilder 0"
      "[CallPrepend (Some (DeleteSheetRequest 1)), CallAppend (Some (DeleteSheetRequest 2)),
        CallPrepend None, CallPrepend (Some (DeleteSheetRequest 3))]"]
    prepend_order [of "Title NewBuilder ''Report''" "DeleteSheetRequest 1" 3 "Sheet NewBuilder 0"
      "[CallPrepend (Some (DeleteSheetRequest 1)), CallAppend (Some (DeleteSheetRequest 2)),
        CallPrepend None, CallPrepend (Some (DeleteSheetRequest 3))]"]
  by (simp add: builder_defs run_staging_def)

text \<open>
  With the title set and one expansion of rows prepended on sheet 0, finalization returns
  the property update first and the prepended request second.
\<close>

theorem prepend_first_counterexample:
  "errs (sb_b (ExpandRows (Sheet (Title NewBuilder ''Report'') 0) 3)) = [] \<and>
   b_requests (sb_b (ExpandRows (Sheet (Title NewBuilder ''Report'') 0) 3)) =
     [AppendDimensionRequest 0 ''ROWS'' 3] \<and>
   fst (Requests (sb_b (ExpandRows (Sheet (Title NewBuilder ''Report'') 0) 3))) =
     ([UpdateSpreadsheetPropertiesRequest
         \<lparr>sp_Title = ''Report'', sp_Locale = [], sp_TimeZone = []\<rparr> ''title'',
       AppendDimensionRequest 0 ''ROWS'' 3], None) \<and>
   hd (fst (fst (Requests (sb_b (ExpandRows (Sheet (Title NewBuilder ''Report'') 0) 3))))) \<noteq>
     AppendDimensionRequest 0 ''ROWS'' 3"
  by (simp add: builder_defs)

text \<open>
  Claim C10. \<open>toCellData\<close> encodes a string that starts with \<open>=\<close> as a formula, any
  other string as text, an \<open>int\<close> (converted) and a \<open>float64\<close> as a number, a \<open>bool\<close> as
  a boolean, and gives a cell with no value for any other dynamic type. The three cell
  setters, given valid coordinates and a value that is not nil (a list that is not empty),
  change the builder only by appending one request whose cells are the conversions of the
  values; so a value of another dynamic type yields a cell without value, and no error is
  recorded.
\<close>

theorem toCellData_encoding:
  "toCellData conv (AnyString (CHR ''='' # s)) = CellData (Some (FormulaValue (CHR ''='' # s))) None \<and>
   toCellData conv (AnyString []) = CellData (Some (StringValue [])) None \<and>
   (c \<noteq> CHR ''='' \<longrightarrow>
      toCellData conv (AnyString (c # s)) = CellData (Some (StringValue (c # s))) None) \<and>
   toCellData conv (AnyInt i) = CellData (Some (NumberValue (conv i))) None \<and>
   toCellData conv (AnyFloat64 x) = CellData (Some (NumberValue x)) None \<and>
   toCellData conv (AnyBool t) = CellData (Some (BoolValue t)) None \<and>
   toCellData conv (AnyOther ty) = CellData None None \<and>
   (0 \<le> row \<and> 0 \<le> col \<and> v \<noteq> AnyNil \<longrightarrow>
      sb_b (SetCellValue conv sb row col v) =
        (sb_b sb)\<lparr>b_requests := b_requests (sb_b sb) @
          [UpdateCellsRequest (GridCoordinate (sb_sheetID sb) row col) [[toCellData conv v]]
             ''userEnteredValue'']\<rparr>) \<and>
   (0 \<le> row \<and> 0 \<le> col \<and> vs \<noteq> [] \<longrightarrow>
      sb_b (SetRowValues conv sb row col vs) =
        (sb_b sb)\<lparr>b_requests := b_requests (sb_b sb) @
          [UpdateCellsRequest (GridCoordinate (sb_sheetID sb) row col)
             [map (toCellData conv) vs] ''userEnteredValue'']\<rparr>) \<and>
   (0 \<le> row \<and> 0 \<le> col \<and> vss \<noteq> [] \<longrightarrow>
      sb_b (SetRangeValues conv sb row col vss) =
        (sb_b sb)\<lparr>b_requests := b_requests (sb_b sb) @
          [UpdateCellsRequest (GridCoordinate (sb_sheetID sb) row col)
             (map (map (toCellData conv)) vss) ''userEnteredValue'']\<rparr>) \<and>
   (0 \<le> row \<and> 0 \<le> col \<longrightarrow>
      errs (sb_b (SetCellValue conv sb row col (AnyOther ty))) = errs (sb_b sb) \<and>
      b_requests (sb_b (SetCellValue conv sb row col (AnyOther ty))) =
        b_requests (sb_b sb) @
          [UpdateCellsRequest (GridCoordinate (sb_sheetID sb) row col) [[CellData None None]]
             ''userEnteredValue''])"
  by (simp add: toCellData_def SetCellValue_def SetRowValues_def SetRangeValues_def
      sb_AppendRequest_def AppendRequest_def Let_def)

theorem toCellData_encoding_witness:
  "CHR ''S'' \<noteq> CHR ''='' \<and>
   toCellData word_of_int (AnyString ''Sum'') = CellData (Some (StringValue ''Sum'')) None \<and>
   toCellData word_of_int (AnyString ''=um'') = CellData (Some (FormulaValue ''=um'')) None \<and>
   (0::int) \<le> 2 \<and> (0::int) \<le> 1 \<and> AnyOther ''int64'' \<noteq> AnyNil \<and>
   errs (sb_b (SetCellValue word_of_int (Sheet NewBuilder 0) 2 1 (AnyOther ''int64''))) = [] \<and>
   b_requests (sb_b (SetCellValue word_of_int (Sheet NewBuilder 0) 2 1 (AnyOther ''int64''))) =
     [UpdateCellsRequest (GridCoordinate 0 2 1) [[CellData None None]] ''userEnteredValue''] \<and>
   [AnyInt 1, AnyOther ''int64''] \<noteq> [] \<and>
   sb_b (SetRowValues word_of_int (Sheet NewBuilder 0) 2 1 [AnyInt 1, AnyOther ''int64'']) =
     NewBuilder\<lparr>b_requests :=
       [UpdateCellsRequest (GridCoordinate 0 2 1)
          [[CellData (Some (NumberValue 1)) None, CellData None None]] ''userEnteredValue'']\<rparr> \<and>
   [[AnyBool True], [AnyOther ''int64'']] \<noteq> [] \<and>
   sb_b (SetRangeValues word_of_int (Sheet NewBuilder 0) 2 1
           [[AnyBool True], [AnyOther ''int64'']]) =
     NewBuilder\<lparr>b_requests :=
       [UpdateCellsRequest (GridCoordinate 0 2 1)
          [[CellData (Some (BoolValue True)) None], [CellData None None]] ''userEnteredValue'']\<rparr>"
  using toCellData_encoding [where conv = word_of_int and s = "''um''" and c = "CHR ''S''"
      and ty = "''int64''" and row = 2 and col = 1 and v = "AnyOther ''int64''"
      and sb = "Sheet NewBuilder 0" and vs = "[AnyInt 1, AnyOther ''int64'']"
      and vss = "[[AnyBool True], [AnyOther ''int64'']]"]
  by (simp add: builder_defs)

text \<open>
  Claim C6, on the code. \<open>AddSheet\<close> never records an error and always stages one
  request; with the sheet identifier \<open>-1\<close> it stages the request for that identifier, which
  finalization then returns; \<open>CopySheetWithID\<close> with the new
  sheet identifier \<open>-1\<close> and \<open>Sheet\<close> with the identifier \<open>-1\<close> record an error, and the
  former stages nothing; \<open>DeleteSheet\<close> of the identifier \<open>-1\<close> is as \<open>AddSheet\<close>.
\<close>

theorem AddSheet_negative_id:
  "errs (AddSheet b i t x) = errs b \<and>
   length (b_requests (AddSheet b i t x)) = length (b_requests b) + 1 \<and>
   errs (AddSheet NewBuilder (-1) ''Data'' 0) = [] \<and>
   fst (Requests (AddSheet NewBuilder (-1) ''Data'' 0)) =
     ([AddSheetRequest (SheetProperties (-1) ''Data'' 0 [''Index''] False None)], None) \<and>
   errs (CopySheetWithID NewBuilder 0 0 (-1) ''Data'') =
     [errorString ''CopySheetWithID: invalid new sheet id: 0''] \<and>
   b_requests (CopySheetWithID NewBuilder 0 0 (-1) ''Data'') = [] \<and>
   errs (sb_b (Sheet NewBuilder (-1))) = [errorString ''Sheet: invalid sheet ID: -1''] \<and>
   errs (DeleteSheet NewBuilder [-1]) = [] \<and>
   b_requests (DeleteSheet NewBuilder [-1]) = [DeleteSheetRequest (-1)]"
  by (simp add: builder_defs CopySheetWithID_def DeleteSheet_def)

text \<open>
  Claim C7, on the code. \<open>WithLimit\<close> stores the limit it is given in the executor of
  the builder, also when it is zero or negative, whereas \<open>NewBatchUpdateExecutor\<close> replaces
  such a limit by 100.
\<close>

theorem WithLimit_nonpositive:
  "executor (WithLimit (Client_Builder c) 0) =
     Some ((NewBatchUpdateExecutor (c_service c) (c_spreadID c) 100)\<lparr>limit := 0\<rparr>) \<and>
   executor (WithLimit (Client_Builder c) (-5)) =
     Some ((NewBatchUpdateExecutor (c_service c) (c_spreadID c) 100)\<lparr>limit := -5\<rparr>) \<and>
   limit (NewBatchUpdateExecutor svc sid 0) = 100 \<and>
   limit (NewBatchUpdateExecutor svc sid (-5)) = 100"
  by (simp add: WithLimit_def Client_Builder_def NewBuilder_def NewBatchUpdateExecutor_def)

end
